theory Spec2Isabelle
  imports Complex_Main "HOL-Library.Char_ord"
begin

section \<open>Python strings\<close>

text \<open>
  A Python \<open>str\<close> is modelled as a \<open>string\<close> whose characters are Latin-1 code points:
  \<open>CHR 0xE1\<close> is the letter a with acute accent that the source writes in its patterns.
  Every literal of the source lies in this range, and so does the result of every string
  operation used below on such a text.
\<close>

datatype error = IndexError | ValueError | OverflowError | ExternalError string

text \<open>\<open>s.startswith(p)\<close>\<close>

fun startswith :: "string \<Rightarrow> string \<Rightarrow> bool" where
  "startswith s [] = True"
| "startswith [] (p # ps) = False"
| "startswith (c # s) (p # ps) = (c = p \<and> startswith s ps)"

text \<open>\<open>p in s\<close> on strings: \<open>p\<close> occurs in \<open>s\<close> as a contiguous substring.\<close>

fun str_in :: "string \<Rightarrow> string \<Rightarrow> bool" where
  "str_in p [] = (p = [])"
| "str_in p (c # s) = (startswith (c # s) p \<or> str_in p s)"

text \<open>
  \<open>s.replace(old, new)\<close>: the occurrences of \<open>old\<close> are replaced from the left, without
  overlap. With an empty \<open>old\<close>, Python puts \<open>new\<close> before every character and at the end.
\<close>

function replace_from :: "string \<Rightarrow> string \<Rightarrow> string \<Rightarrow> string" where
  "replace_from old new [] = []"
| "replace_from old new (c # s) =
     (if old \<noteq> [] \<and> startswith (c # s) old
      then new @ replace_from old new (drop (length old) (c # s))
      else c # replace_from old new s)"
  by pat_completeness auto
termination
  by (relation "measure (\<lambda>(old, new, s). length s)") (auto simp: neq_Nil_conv)

definition py_replace :: "string \<Rightarrow> string \<Rightarrow> string \<Rightarrow> string" where
  "py_replace s old new =
     (if old = [] then new @ concat (map (\<lambda>c. c # new) s) else replace_from old new s)"

text \<open>\<open>str.isspace\<close> of one character, which is also what \<open>\s\<close> matches in a pattern.\<close>

definition isspace :: "char \<Rightarrow> bool" where
  "isspace c = (c \<in> set [CHR 0x09, CHR 0x0A, CHR 0x0B, CHR 0x0C, CHR 0x0D, CHR 0x1C, CHR 0x1D,
       CHR 0x1E, CHR 0x1F, CHR 0x20, CHR 0x85, CHR 0xA0])"

text \<open>\<open>s.strip()\<close>\<close>

definition strip :: "string \<Rightarrow> string" where
  "strip s = rev (dropWhile isspace (rev (dropWhile isspace s)))"

text \<open>The decimal digits of Latin-1, which is what \<open>\d\<close> matches there.\<close>

definition isdigit :: "char \<Rightarrow> bool" where
  "isdigit c = (c \<in> set ''0123456789'')"

text \<open>
  The cased letters of Latin-1, upper case and lower case at the same index. The three
  letters whose other case lies outside Latin-1 (micro sign, sharp s, y with diaeresis)
  are their own lower case in Python as well.
\<close>

definition upper_letters :: string where
  "upper_letters = ''ABCDEFGHIJKLMNOPQRSTUVWXYZ'' @
     [CHR 0xC0, CHR 0xC1, CHR 0xC2, CHR 0xC3, CHR 0xC4, CHR 0xC5, CHR 0xC6, CHR 0xC7,
      CHR 0xC8, CHR 0xC9, CHR 0xCA, CHR 0xCB, CHR 0xCC, CHR 0xCD, CHR 0xCE, CHR 0xCF,
      CHR 0xD0, CHR 0xD1, CHR 0xD2, CHR 0xD3, CHR 0xD4, CHR 0xD5, CHR 0xD6,
      CHR 0xD8, CHR 0xD9, CHR 0xDA, CHR 0xDB, CHR 0xDC, CHR 0xDD, CHR 0xDE]"

definition lower_letters :: string where
  "lower_letters = ''abcdefghijklmnopqrstuvwxyz'' @
     [CHR 0xE0, CHR 0xE1, CHR 0xE2, CHR 0xE3, CHR 0xE4, CHR 0xE5, CHR 0xE6, CHR 0xE7,
      CHR 0xE8, CHR 0xE9, CHR 0xEA, CHR 0xEB, CHR 0xEC, CHR 0xED, CHR 0xEE, CHR 0xEF,
      CHR 0xF0, CHR 0xF1, CHR 0xF2, CHR 0xF3, CHR 0xF4, CHR 0xF5, CHR 0xF6,
      CHR 0xF8, CHR 0xF9, CHR 0xFA, CHR 0xFB, CHR 0xFC, CHR 0xFD, CHR 0xFE]"

definition lower_char :: "char \<Rightarrow> char" where
  "lower_char c = (case map_of (zip upper_letters lower_letters) c of Some d \<Rightarrow> d | None \<Rightarrow> c)"

definition upper_char :: "char \<Rightarrow> char" where
  "upper_char c = (case map_of (zip lower_letters upper_letters) c of Some d \<Rightarrow> d | None \<Rightarrow> c)"

text \<open>\<open>s.lower()\<close>\<close>

definition lower :: "string \<Rightarrow> string" where
  "lower s = map lower_char s"

text \<open>
  What \<open>\w\<close> matches in Latin-1: the characters for which \<open>str.isalnum\<close> holds (letters,
  decimal digits, the superscript digits and the vulgar fractions) and the underscore.
\<close>

definition isword :: "char \<Rightarrow> bool" where
  "isword c = (isdigit c \<or> c \<in> set upper_letters \<or> c \<in> set lower_letters
     \<or> c \<in> set [CHR ''_'', CHR 0xAA, CHR 0xB2, CHR 0xB3, CHR 0xB5, CHR 0xB9, CHR 0xBA,
          CHR 0xBC, CHR 0xBD, CHR 0xBE, CHR 0xDF, CHR 0xFF])"

section \<open>Regular expressions\<close>

text \<open>
  The patterns of the source are values of the type \<open>regex\<close>, and Python's \<open>re\<close> module is
  a backtracking matcher over them: alternatives are tried from the left, a greedy
  repetition tries one more iteration before it tries to stop, a lazy one the other way
  round, and the first way through the whole pattern is the match. The matcher is written
  with a continuation for the rest of the pattern, so that its answer is this first way.
\<close>

datatype citem = CChar char | CRange char char | CDigit | CSpace | CWord

fun citem_has :: "citem \<Rightarrow> char \<Rightarrow> bool" where
  "citem_has (CChar a) c = (c = a)"
| "citem_has (CRange a b) c = (a \<le> c \<and> c \<le> b)"
| "citem_has CDigit c = isdigit c"
| "citem_has CSpace c = isspace c"
| "citem_has CWord c = isword c"

datatype regex =
    RChar char
  | RSet "citem list"
  | RAny
  | RSeq regex regex
  | RAlt regex regex
  | RRep regex nat "nat option" bool
  | RGroup nat regex
  | RBol
  | REol
  | REps

text \<open>
  \<open>RRep r lo hi greedy\<close> is \<open>r{lo,hi}\<close> (\<open>hi = None\<close>: no upper bound), \<open>RGroup n r\<close> the
  \<open>n\<close>-th capturing group, \<open>RBol\<close> and \<open>REol\<close> are \<open>^\<close> and \<open>$\<close> without \<open>re.MULTILINE\<close>,
  \<open>RAny\<close> is the dot without \<open>re.DOTALL\<close>. A group that only brackets, \<open>(?:...)\<close>, is the
  pattern inside it.
\<close>

record mstate =
  at_start :: bool
  rest :: string
  caps :: "(nat \<times> string) list"

type_synonym 'r matcher = "mstate \<Rightarrow> (mstate \<Rightarrow> 'r option) \<Rightarrow> 'r option"

text \<open>
  With \<open>re.IGNORECASE\<close> a literal matches a character with the same lower case, and a set
  matches a character whose lower case, or the upper case of it, is in the set.
\<close>

definition char_ok :: "bool \<Rightarrow> char \<Rightarrow> char \<Rightarrow> bool" where
  "char_ok ic a c = (if ic then lower_char c = lower_char a else c = a)"

definition set_ok :: "bool \<Rightarrow> citem list \<Rightarrow> char \<Rightarrow> bool" where
  "set_ok ic items c =
     (if ic
      then list_ex (\<lambda>i. citem_has i (lower_char c) \<or> citem_has i (upper_char (lower_char c))) items
      else list_ex (\<lambda>i. citem_has i c) items)"

definition step_if :: "(char \<Rightarrow> bool) \<Rightarrow> 'r matcher" where
  "step_if p st k =
     (case rest st of
        [] \<Rightarrow> None
      | c # s' \<Rightarrow> if p c then k (st\<lparr>at_start := False, rest := s'\<rparr>) else None)"

text \<open>
  A repetition with at least \<open>lo\<close> and at most \<open>m\<close> further iterations. An iteration beyond
  the required ones has to consume a character; every repeated pattern of this program
  does.
\<close>

fun rep :: "'r matcher \<Rightarrow> bool \<Rightarrow> nat \<Rightarrow> nat \<Rightarrow> 'r matcher" where
  "rep f greedy lo 0 st k = (if lo = 0 then k st else None)"
| "rep f greedy lo (Suc m) st k =
     (if 0 < lo then f st (\<lambda>st'. rep f greedy (lo - 1) m st' k)
      else if greedy
      then (case f st (\<lambda>st'. if length (rest st') < length (rest st)
                              then rep f greedy 0 m st' k else None) of
              Some x \<Rightarrow> Some x
            | None \<Rightarrow> k st)
      else (case k st of
              Some x \<Rightarrow> Some x
            | None \<Rightarrow> f st (\<lambda>st'. if length (rest st') < length (rest st)
                                  then rep f greedy 0 m st' k else None)))"

definition consumed :: "mstate \<Rightarrow> mstate \<Rightarrow> string" where
  "consumed st st' = take (length (rest st) - length (rest st')) (rest st)"

definition set_group :: "nat \<Rightarrow> string \<Rightarrow> mstate \<Rightarrow> mstate" where
  "set_group n t st = st\<lparr>caps := (n, t) # filter (\<lambda>g. fst g \<noteq> n) (caps st)\<rparr>"

text \<open>
  An unbounded repetition cannot have more iterations than required ones plus characters
  left, which is the bound it is run with.
\<close>

primrec rmatch :: "regex \<Rightarrow> bool \<Rightarrow> 'r matcher" where
  "rmatch (RChar a) = (\<lambda>ic. step_if (char_ok ic a))"
| "rmatch (RSet items) = (\<lambda>ic. step_if (set_ok ic items))"
| "rmatch RAny = (\<lambda>ic. step_if (\<lambda>c. c \<noteq> CHR 0x0A))"
| "rmatch (RSeq r1 r2) = (\<lambda>ic st k. rmatch r1 ic st (\<lambda>st'. rmatch r2 ic st' k))"
| "rmatch (RAlt r1 r2) = (\<lambda>ic st k.
     case rmatch r1 ic st k of Some x \<Rightarrow> Some x | None \<Rightarrow> rmatch r2 ic st k)"
| "rmatch (RRep r lo hi greedy) = (\<lambda>ic st k.
     rep (rmatch r ic) greedy lo
       (case hi of Some h \<Rightarrow> h | None \<Rightarrow> lo + length (rest st)) st k)"
| "rmatch (RGroup n r) = (\<lambda>ic st k.
     rmatch r ic st (\<lambda>st'. k (set_group n (consumed st st') st')))"
| "rmatch RBol = (\<lambda>ic st k. if at_start st then k st else None)"
| "rmatch REol = (\<lambda>ic st k. if rest st = [] \<or> rest st = [CHR 0x0A] then k st else None)"
| "rmatch REps = (\<lambda>ic st k. k st)"

text \<open>
  The match object: \<open>group0\<close> is \<open>m.group(0)\<close>, \<open>groups\<close> the captures by number, \<open>after\<close>
  the text from \<open>m.end()\<close> on.
\<close>

record rematch =
  group0 :: string
  groups :: "(nat \<times> string) list"
  after :: string

definition match_at :: "regex \<Rightarrow> bool \<Rightarrow> bool \<Rightarrow> string \<Rightarrow> rematch option" where
  "match_at r ic bos s =
     rmatch r ic \<lparr>at_start = bos, rest = s, caps = []\<rparr>
       (\<lambda>st'. Some \<lparr>group0 = take (length s - length (rest st')) s, groups = caps st',
                     after = rest st'\<rparr>)"


text \<open>\<open>re.search(r, s)\<close>: the match at the leftmost position that has one.\<close>

fun search_from :: "regex \<Rightarrow> bool \<Rightarrow> bool \<Rightarrow> string \<Rightarrow> rematch option" where
  "search_from r ic bos [] = match_at r ic bos []"
| "search_from r ic bos (c # s) =
     (case match_at r ic bos (c # s) of
        Some m \<Rightarrow> Some m
      | None \<Rightarrow> search_from r ic False s)"

definition re_search :: "regex \<Rightarrow> bool \<Rightarrow> string \<Rightarrow> rematch option" where
  "re_search r ic s = search_from r ic True s"

text \<open>
  \<open>m.group(i)\<close>. No pattern of this program has a group that a match can leave out, so a
  group without a capture is a group the pattern does not have, and Python raises
  \<open>IndexError\<close>.
\<close>

definition group :: "rematch \<Rightarrow> nat \<Rightarrow> error + string" where
  "group m i =
     (if i = 0 then Inr (group0 m)
      else case map_of (groups m) i of Some t \<Rightarrow> Inr t | None \<Rightarrow> Inl IndexError)"

text \<open>
  \<open>re.findall(r, s)\<close> for a pattern with one group: the captures of the successive matches,
  each search starting where the last match ended. The patterns it is used with never match
  the empty string; after an empty match the scan moves on by one character.
\<close>

function findall_from :: "regex \<Rightarrow> bool \<Rightarrow> bool \<Rightarrow> string \<Rightarrow> string list" where
  "findall_from r ic bos s =
     (case search_from r ic bos s of
        None \<Rightarrow> []
      | Some m \<Rightarrow>
          (case map_of (groups m) 1 of Some t \<Rightarrow> t | None \<Rightarrow> group0 m) #
          (if length (after m) < length s then findall_from r ic False (after m)
           else case s of [] \<Rightarrow> [] | c # s' \<Rightarrow> findall_from r ic False s'))"
  by pat_completeness auto
termination
  by (relation "measure (\<lambda>(r, ic, bos, s). length s)") auto

definition re_findall :: "regex \<Rightarrow> bool \<Rightarrow> string \<Rightarrow> string list" where
  "re_findall r ic s = findall_from r ic True s"

text \<open>Shorthands for writing patterns.\<close>

definition rlit :: "string \<Rightarrow> regex" where
  "rlit s = foldr (\<lambda>c r. RSeq (RChar c) r) s REps"

definition rseq :: "regex list \<Rightarrow> regex" where
  "rseq rs = foldr RSeq rs REps"

definition rstar :: "regex \<Rightarrow> regex" where
  "rstar r = RRep r 0 None True"

definition rplus :: "regex \<Rightarrow> regex" where
  "rplus r = RRep r 1 None True"

definition rplus_lazy :: "regex \<Rightarrow> regex" where
  "rplus_lazy r = RRep r 1 None False"

definition ropt :: "regex \<Rightarrow> regex" where
  "ropt r = RRep r 0 (Some 1) True"

definition rtimes :: "regex \<Rightarrow> nat \<Rightarrow> nat \<Rightarrow> regex" where
  "rtimes r lo hi = RRep r lo (Some hi) True"

definition rdigit :: regex where
  "rdigit = RSet [CDigit]"

definition rspace :: regex where
  "rspace = RSet [CSpace]"

section \<open>Format validation of tax identifiers\<close>

text \<open>
  \<open>helpers.validate_cpf\<close>. Its four patterns, in the order of the list \<open>cpf_patterns\<close>:
  \<^verbatim>\<open>^\*{3}[.,]?\d{3}[.,]?\d{3}-?\*{2}$\<close>, \<^verbatim>\<open>^\d{3}[.,]?\d{3}[.,]?\d{3}-?\d{2}$\<close>,
  \<^verbatim>\<open>^\*{3}\d{3}\d{3}\*{2}$\<close> and \<^verbatim>\<open>^\d{11}$\<close>.
\<close>

definition dot_or_comma :: regex where
  "dot_or_comma = RSet [CChar CHR ''.'', CChar CHR '','']"



section \<open>Layout detection\<close>

text \<open>
  \<open>helpers.detect_document_layout\<close>, the copy that \<open>extract_data\<close> calls. The two
  non-ASCII keywords are \<open>caixa econ\<close>\<^verbatim>\<open>\xf4\<close>\<open>mica\<close> and \<open>ita\<close>\<^verbatim>\<open>\xfa\<close>.
\<close>

definition caixa_economica :: string where
  "caixa_economica = ''caixa econ'' @ [CHR 0xF4] @ ''mica''"

definition itau_acute :: string where
  "itau_acute = ''ita'' @ [CHR 0xFA]"

definition detect_document_layout :: "string \<Rightarrow> string" where
  "detect_document_layout text =
     (let text_lower = lower text in
      if str_in ''will bank'' text_lower \<or> str_in ''willbank'' text_lower then ''will_bank''
      else if str_in ''nu pagamentos'' text_lower \<and> \<not> str_in ''will bank'' text_lower
        then ''nubank''
      else if str_in caixa_economica text_lower \<or> str_in ''caixa'' text_lower then ''caixa''
      else if str_in ''banco do brasil'' text_lower then ''bb''
      else if str_in ''bradesco'' text_lower then ''bradesco''
      else if str_in itau_acute text_lower \<or> str_in ''itau'' text_lower then ''itau''
      else if str_in ''santander'' text_lower then ''santander''
      else ''generico'')"

text \<open>\<open>OCRExtractor.detect_document_layout\<close>, the method of the extractor module.\<close>

definition OCRExtractor_detect_document_layout :: "string \<Rightarrow> string" where
  "OCRExtractor_detect_document_layout text =
     (let text_lower = lower text in
      if str_in ''will bank'' text_lower \<or> str_in ''willbank'' text_lower then ''will_bank''
      else if str_in ''nu pagamentos'' text_lower \<or> str_in ''nubank'' text_lower then ''nubank''
      else if str_in caixa_economica text_lower \<or> str_in ''caixa'' text_lower then ''caixa''
      else if str_in ''banco do brasil'' text_lower then ''bb''
      else if str_in ''bradesco'' text_lower then ''bradesco''
      else if str_in itau_acute text_lower \<or> str_in ''itau'' text_lower then ''itau''
      else if str_in ''santander'' text_lower then ''santander''
      else ''generico'')"

text \<open>
  The specification's reading of the classifier: a table of keyword signatures in priority
  order; the first layout one of whose keywords occurs in the lower-cased text wins, and
  the answer is \<open>generico\<close> when there is none.
\<close>

definition helpers_signatures :: "(string \<times> string list) list" where
  "helpers_signatures =
     [(''will_bank'', [''will bank'', ''willbank'']),
      (''nubank'', [''nu pagamentos'']),
      (''caixa'', [caixa_economica, ''caixa'']),
      (''bb'', [''banco do brasil'']),
      (''bradesco'', [''bradesco'']),
      (''itau'', [itau_acute, ''itau'']),
      (''santander'', [''santander''])]"

definition extractor_signatures :: "(string \<times> string list) list" where
  "extractor_signatures =
     [(''will_bank'', [''will bank'', ''willbank'']),
      (''nubank'', [''nu pagamentos'', ''nubank'']),
      (''caixa'', [caixa_economica, ''caixa'']),
      (''bb'', [''banco do brasil'']),
      (''bradesco'', [''bradesco'']),
      (''itau'', [itau_acute, ''itau'']),
      (''santander'', [''santander''])]"

definition signature_matches :: "string \<Rightarrow> string \<times> string list \<Rightarrow> bool" where
  "signature_matches text sig = list_ex (\<lambda>k. str_in k (lower text)) (snd sig)"

definition first_signature :: "(string \<times> string list) list \<Rightarrow> string \<Rightarrow> string" where
  "first_signature table text =
     (case find (signature_matches text) table of
        Some sig \<Rightarrow> fst sig
      | None \<Rightarrow> ''generico'')"

section \<open>Numbers\<close>

text \<open>
  A Python \<open>float\<close> is modelled by the number its decimal notation denotes, with the three
  special values. The rounding to binary64 and its overflow are not modelled: \<open>Finite r\<close>
  stands for the double nearest to \<open>r\<close>.
\<close>

datatype pyfloat = Finite rat | PosInf | NegInf | NaN

text \<open>\<open>x < y\<close> and \<open>x <= y\<close> on floats; every comparison with \<open>nan\<close> is false.\<close>

fun fless :: "pyfloat \<Rightarrow> pyfloat \<Rightarrow> bool" where
  "fless (Finite a) (Finite b) = (a < b)"
| "fless (Finite a) PosInf = True"
| "fless NegInf (Finite b) = True"
| "fless NegInf PosInf = True"
| "fless x y = False"

fun fle :: "pyfloat \<Rightarrow> pyfloat \<Rightarrow> bool" where
  "fle (Finite a) (Finite b) = (a \<le> b)"
| "fle (Finite a) PosInf = True"
| "fle NegInf (Finite b) = True"
| "fle NegInf PosInf = True"
| "fle NegInf NegInf = True"
| "fle PosInf PosInf = True"
| "fle x y = False"

text \<open>The truth value of a float: only zero is false.\<close>

definition float_truthy :: "pyfloat \<Rightarrow> bool" where
  "float_truthy x = (x \<noteq> Finite 0)"

definition digit_val :: "char \<Rightarrow> nat" where
  "digit_val c = length (takeWhile (\<lambda>d. d \<noteq> c) ''0123456789'')"

definition digit_char :: "nat \<Rightarrow> char" where
  "digit_char n = ''0123456789'' ! n"

definition nat_of_digits :: "string \<Rightarrow> nat" where
  "nat_of_digits ds = foldl (\<lambda>a c. 10 * a + digit_val c) 0 ds"

text \<open>\<open>str(n)\<close> for a natural number.\<close>

function str_nat :: "nat \<Rightarrow> string" where
  "str_nat n = (if n < 10 then [digit_char n] else str_nat (n div 10) @ [digit_char (n mod 10)])"
  by pat_completeness auto
termination
  by (relation "measure (\<lambda>n. n)") auto

text \<open>Padding a string of digits with zeros on the left, as the formats \<open>03d\<close> and \<open>.2f\<close> do.\<close>

definition zfill :: "nat \<Rightarrow> string \<Rightarrow> string" where
  "zfill w s = replicate (w - length s) CHR ''0'' @ s"

text \<open>
  The digits of a \<open>digitpart\<close> of Python's grammar of floats, \<open>digit (["_"] digit)*\<close>, at
  the head of a string, and what follows them.
\<close>

fun digitpart :: "string \<Rightarrow> string \<times> string" where
  "digitpart [] = ([], [])"
| "digitpart [c] = (if isdigit c then ([c], []) else ([], [c]))"
| "digitpart (c # d # s) =
     (if \<not> isdigit c then ([], c # d # s)
      else if d = CHR ''_'' then
        (case s of
           [] \<Rightarrow> ([c], d # s)
         | e # s' \<Rightarrow> if isdigit e then (case digitpart s of (ds, r) \<Rightarrow> (c # ds, r))
                     else ([c], d # s))
      else (case digitpart (d # s) of (ds, r) \<Rightarrow> (c # ds, r)))"

text \<open>An optional sign at the head of a string: whether it is a minus, and what follows.\<close>

fun sign_of :: "string \<Rightarrow> bool \<times> string" where
  "sign_of [] = (False, [])"
| "sign_of (c # s) =
     (if c = CHR ''-'' then (True, s) else if c = CHR ''+'' then (False, s) else (False, c # s))"

text \<open>
  The exponent of a float, \<open>("e" | "E") ["+" | "-"] digitpart\<close>, when it is all that is
  left of the string; \<open>Some 0\<close> for the empty string.
\<close>

definition exponent_of :: "string \<Rightarrow> int option" where
  "exponent_of s =
     (case s of
        [] \<Rightarrow> Some 0
      | c # s' \<Rightarrow>
          if c = CHR ''e'' \<or> c = CHR ''E'' then
            (case sign_of s' of (neg, s'') \<Rightarrow>
               (case digitpart s'' of (ds, r) \<Rightarrow>
                  if ds \<noteq> [] \<and> r = []
                  then Some (if neg then - int (nat_of_digits ds) else int (nat_of_digits ds))
                  else None))
          else None)"

definition scale10 :: "rat \<Rightarrow> int \<Rightarrow> rat" where
  "scale10 x e = (if 0 \<le> e then x * 10 ^ nat e else x / 10 ^ nat (- e))"

text \<open>
  \<open>floatnumber\<close>: \<open>[digitpart] "." digitpart | digitpart ["."]\<close>, then an optional
  exponent.
\<close>

definition float_number :: "string \<Rightarrow> rat option" where
  "float_number s =
     (case digitpart s of (ip, r) \<Rightarrow>
        (case r of
           c # r' \<Rightarrow>
             if c = CHR ''.'' then
               (case digitpart r' of (fp, r'') \<Rightarrow>
                  if ip = [] \<and> fp = [] then None
                  else map_option
                         (scale10 (of_nat (nat_of_digits ip)
                                   + of_nat (nat_of_digits fp) / 10 ^ length fp))
                         (exponent_of r''))
             else if ip = [] then None
             else map_option (scale10 (of_nat (nat_of_digits ip))) (exponent_of r)
         | [] \<Rightarrow> if ip = [] then None else Some (of_nat (nat_of_digits ip))))"

text \<open>
  \<open>float(s)\<close> for a string: surrounding white space is dropped, then comes an optional sign
  and one of \<open>inf\<close>, \<open>infinity\<close>, \<open>nan\<close> in any case or a number. Anything else raises
  \<open>ValueError\<close>.
\<close>

definition py_float :: "string \<Rightarrow> error + pyfloat" where
  "py_float s =
     (case sign_of (strip s) of (neg, body) \<Rightarrow>
        if lower body = ''inf'' \<or> lower body = ''infinity''
          then Inr (if neg then NegInf else PosInf)
        else if lower body = ''nan'' then Inr NaN
        else (case float_number body of
                None \<Rightarrow> Inl ValueError
              | Some r \<Rightarrow> Inr (Finite (if neg then - r else r))))"

text \<open>Rounding a non-negative number to an integer, ties to the even neighbour.\<close>

definition round_half_even :: "rat \<Rightarrow> nat" where
  "round_half_even q =
     (let f = nat \<lfloor>q\<rfloor>; d = q - of_nat f
      in if d < 1 / 2 then f else if 1 / 2 < d then f + 1 else if even f then f else f + 1)"

text \<open>The thousands separators of the format \<open>,\<close>: a comma before every group of three digits.\<close>

function thousands :: "string \<Rightarrow> string" where
  "thousands s =
     (if length s \<le> 3 then s
      else thousands (take (length s - 3) s) @ [CHR '',''] @ drop (length s - 3) s)"
  by pat_completeness auto
termination
  by (relation "measure length") auto

text \<open>The sign that a format prints before a number.\<close>

definition minus_sign :: "rat \<Rightarrow> string" where
  "minus_sign r = (if r < 0 then [CHR ''-''] else [])"

text \<open>\<open>f"{x:,.2f}"\<close> and \<open>f"{x:.0f}"\<close>\<close>

fun format_comma_2f :: "pyfloat \<Rightarrow> string" where
  "format_comma_2f (Finite r) =
     (let cents = round_half_even (\<bar>r\<bar> * 100)
      in minus_sign r @ thousands (str_nat (cents div 100)) @ [CHR ''.'']
         @ zfill 2 (str_nat (cents mod 100)))"
| "format_comma_2f PosInf = ''inf''"
| "format_comma_2f NegInf = ''-inf''"
| "format_comma_2f NaN = ''nan''"

fun format_0f :: "pyfloat \<Rightarrow> string" where
  "format_0f (Finite r) = minus_sign r @ str_nat (round_half_even \<bar>r\<bar>)"
| "format_0f PosInf = ''inf''"
| "format_0f NegInf = ''-inf''"
| "format_0f NaN = ''nan''"

text \<open>\<open>int(x)\<close> for a float truncates towards zero and raises on the special values.\<close>

fun py_int :: "pyfloat \<Rightarrow> error + int" where
  "py_int (Finite r) = Inr (if 0 \<le> r then \<lfloor>r\<rfloor> else - \<lfloor>- r\<rfloor>)"
| "py_int PosInf = Inl OverflowError"
| "py_int NegInf = Inl OverflowError"
| "py_int NaN = Inl ValueError"

text \<open>\<open>str(n)\<close> for an integer.\<close>

definition str_int :: "int \<Rightarrow> string" where
  "str_int i = (if i < 0 then [CHR ''-''] @ str_nat (nat (- i)) else str_nat (nat i))"

section \<open>Currency\<close>

text \<open>
  \<open>helpers.format_currency\<close>:
  \<^verbatim>\<open>f"R$ {value:,.2f}".replace(',', 'X').replace('.', ',').replace('X', '.')\<close>
\<close>

definition format_currency :: "pyfloat \<Rightarrow> string" where
  "format_currency v =
     py_replace (py_replace (py_replace (''R$ '' @ format_comma_2f v) '','' ''X'') ''.'' '','')
       ''X'' ''.''"

text \<open>
  \<open>OCRExtractor._parse_currency\<close>. \<open>re.sub(r'[R$\s]', '', s)\<close> deletes the characters of the
  set, which is a filter.
\<close>

definition parse_currency :: "string \<Rightarrow> pyfloat" where
  "parse_currency value_str =
     (if value_str = [] then Finite 0
      else
        let cleaned = filter (\<lambda>c. \<not> (c = CHR ''R'' \<or> c = CHR ''$'' \<or> isspace c)) value_str;
            cleaned =
              (if str_in '','' cleaned \<and> str_in ''.'' cleaned
               then py_replace (py_replace cleaned ''.'' []) '','' ''.''
               else if str_in '','' cleaned then py_replace cleaned '','' ''.''
               else cleaned)
        in case py_float cleaned of Inr v \<Rightarrow> v | Inl e \<Rightarrow> Finite 0)"

section \<open>Extracted data\<close>

text \<open>
  The dictionaries that the extraction functions build hold floats under the keys
  \<open>valor_total\<close> and \<open>valor_numerico\<close> and strings under every other key. A dictionary is
  modelled by one map for each of the two types of value; a key is in at most one of them.
\<close>

record pydict =
  floats :: "string \<rightharpoonup> pyfloat"
  strs :: "string \<rightharpoonup> string"

definition empty_dict :: pydict where
  "empty_dict = \<lparr>floats = Map.empty, strs = Map.empty\<rparr>"

text \<open>\<open>d[k] = v\<close>, \<open>d.get(k, default)\<close> and \<open>k in d\<close>\<close>

definition set_str :: "string \<Rightarrow> string \<Rightarrow> pydict \<Rightarrow> pydict" where
  "set_str k v d = \<lparr>floats = (floats d)(k := None), strs = (strs d)(k \<mapsto> v)\<rparr>"

definition set_float :: "string \<Rightarrow> pyfloat \<Rightarrow> pydict \<Rightarrow> pydict" where
  "set_float k v d = \<lparr>floats = (floats d)(k \<mapsto> v), strs = (strs d)(k := None)\<rparr>"

definition get_str :: "pydict \<Rightarrow> string \<Rightarrow> string \<Rightarrow> string" where
  "get_str d k dflt = (case strs d k of Some v \<Rightarrow> v | None \<Rightarrow> dflt)"

definition get_float :: "pydict \<Rightarrow> string \<Rightarrow> pyfloat \<Rightarrow> pyfloat" where
  "get_float d k dflt = (case floats d k of Some v \<Rightarrow> v | None \<Rightarrow> dflt)"

definition has_key :: "pydict \<Rightarrow> string \<Rightarrow> bool" where
  "has_key d k = (floats d k \<noteq> None \<or> strs d k \<noteq> None)"

text \<open>
  A name that is \<open>None\<close> or a string: \<open>opt_str\<close> is the string, empty for \<open>None\<close>, so that
  the test \<open>if nome:\<close> is \<open>opt_str nome \<noteq> []\<close>.
\<close>

definition opt_str :: "string option \<Rightarrow> string" where
  "opt_str x = (case x of Some s \<Rightarrow> s | None \<Rightarrow> [])"

section \<open>Correction of the recognised text\<close>

text \<open>
  \<open>helpers.correct_common_ocr_errors\<close>: the replacements of the dictionary \<open>corrections\<close>,
  applied one after the other in the order of the dictionary.
\<close>

definition corrections :: "(string \<times> string) list" where
  "corrections =
     [(''Ana Cieuma'', ''Ana Cleuma''),
      (''Ana Cieima'', ''Ana Cleuma''),
      (''Sheiia'', ''Sheila''),
      (''Antonlo'', ''Antonio''),
      (''R5 '', ''R$ ''),
      (''RS '', ''R$ ''),
      (''2O25'', ''2025''),
      (''O5/'', ''05/''),
      (''NU PAGAMENT0S'', ''NU PAGAMENTOS''),
      (''Wili Bank'', ''Will Bank''),
      (''E2386276220250520201'', ''E238627622025052020'')]"

definition correct_common_ocr_errors :: "string \<Rightarrow> string" where
  "correct_common_ocr_errors text =
     foldl (\<lambda>corrected_text (erro, correcao). py_replace corrected_text erro correcao)
       text corrections"

section \<open>Amounts in the text\<close>

text \<open>
  The amount pattern \<^verbatim>\<open>(\d+[,.]?\d{0,2})\<close> as a group, and the three patterns of
  \<open>helpers.extract_value_with_fallback\<close>: \<^verbatim>\<open>R\$\s*(\d+[,.]?\d{0,2})\<close>,
  \<^verbatim>\<open>(\d+[,.]?\d{2})\<close> and \<^verbatim>\<open>Valor[:\s]*R?\$?\s*(\d+[,.]?\d{0,2})\<close>.
\<close>

definition amount_group :: "nat \<Rightarrow> regex" where
  "amount_group lo = RGroup 1 (rseq [rplus rdigit, ropt dot_or_comma, rtimes rdigit lo 2])"

definition reais_amount :: regex where
  "reais_amount = rseq [rlit ''R$'', rstar rspace, amount_group 0]"

definition fallback_valor_patterns :: "regex list" where
  "fallback_valor_patterns =
     [reais_amount,
      amount_group 2,
      rseq [rlit ''Valor'', rstar (RSet [CChar CHR '':'', CSpace]), ropt (RChar CHR ''R''),
            ropt (RChar CHR ''$''), rstar rspace, amount_group 0]]"

text \<open>
  The inner loop: the first match whose float is positive; a match that \<open>float\<close> rejects
  is skipped by the \<open>except\<close>.
\<close>

fun first_positive :: "string list \<Rightarrow> pyfloat option" where
  "first_positive [] = None"
| "first_positive (m # ms) =
     (case py_float (py_replace m '','' ''.'') of
        Inr valor \<Rightarrow> if fless (Finite 0) valor then Some valor else first_positive ms
      | Inl e \<Rightarrow> first_positive ms)"

fun first_pattern_value :: "regex list \<Rightarrow> string \<Rightarrow> pyfloat option" where
  "first_pattern_value [] text = None"
| "first_pattern_value (pattern # patterns) text =
     (case first_positive (re_findall pattern False text) of
        Some valor \<Rightarrow> Some valor
      | None \<Rightarrow> first_pattern_value patterns text)"

definition extract_value_with_fallback :: "string \<Rightarrow> pyfloat list \<Rightarrow> pyfloat" where
  "extract_value_with_fallback text expected_values =
     (case first_pattern_value fallback_valor_patterns text of
        Some valor \<Rightarrow> valor
      | None \<Rightarrow>
          (case find (\<lambda>valor_esperado. str_in (format_0f valor_esperado) text) expected_values of
             Some valor_esperado \<Rightarrow> valor_esperado
           | None \<Rightarrow> Finite 0))"

section \<open>Extraction for the Will Bank layout\<close>

text \<open>
  \<open>OCRExtractor.extract_pix_will_bank_data\<close>, in the six steps that the source numbers.
  The character set of the name patterns is
  \<^verbatim>\<open>[A-Za-z\<close>...\<^verbatim>\<open>\s]\<close> with the eighteen accented lower-case letters of the source.
\<close>

definition name_chars :: "citem list" where
  "name_chars =
     [CRange CHR ''A'' CHR ''Z'', CRange CHR ''a'' CHR ''z'',
      CChar (CHR 0xE1), CChar (CHR 0xE0), CChar (CHR 0xE2), CChar (CHR 0xE3), CChar (CHR 0xE9),
      CChar (CHR 0xE8), CChar (CHR 0xEA), CChar (CHR 0xED), CChar (CHR 0xEC), CChar (CHR 0xEE),
      CChar (CHR 0xF3), CChar (CHR 0xF2), CChar (CHR 0xF4), CChar (CHR 0xF5), CChar (CHR 0xFA),
      CChar (CHR 0xF9), CChar (CHR 0xFB), CChar (CHR 0xE7), CSpace]"

text \<open>\<^verbatim>\<open>head\s+([...]+?)(?:\s*tail)\<close>, the shape of most name patterns.\<close>

definition name_between :: "regex \<Rightarrow> regex \<Rightarrow> regex" where
  "name_between head tail =
     rseq [head, rplus rspace, RGroup 1 (rplus_lazy (RSet name_chars)), rstar rspace, tail]"

text \<open>Step 1: the amount, by the payer's name or by the text.\<close>

definition will_bank_valor :: "string \<Rightarrow> pyfloat" where
  "will_bank_valor cleaned_text =
     (if str_in ''Antonio Valmi'' cleaned_text then Finite 33
      else if str_in ''Sheila Fernandes'' cleaned_text then Finite 17
      else extract_value_with_fallback cleaned_text [Finite 17, Finite 33])"

text \<open>
  Step 2: the names. \<open>destino_patterns\<close> are \<^verbatim>\<open>Para\s+Ana Cleuma Sousa Dos Santos\<close>, which
  has no group, and \<^verbatim>\<open>Para\s+([...]+?)(?:\s*CPF)\<close>; both are searched with
  \<open>re.IGNORECASE\<close>, and the first that matches decides.
\<close>

definition destino_patterns :: "regex list" where
  "destino_patterns =
     [rseq [rlit ''Para'', rplus rspace, rlit ''Ana Cleuma Sousa Dos Santos''],
      name_between (rlit ''Para'') (rlit ''CPF'')]"

fun will_bank_destino :: "regex list \<Rightarrow> string \<Rightarrow> error + string option" where
  "will_bank_destino [] cleaned_text = Inr None"
| "will_bank_destino (pattern # patterns) cleaned_text =
     (case re_search pattern True cleaned_text of
        None \<Rightarrow> will_bank_destino patterns cleaned_text
      | Some m \<Rightarrow>
          if str_in ''Ana Cleuma'' (group0 m) then Inr (Some ''Ana Cleuma Sousa Dos Santos'')
          else (case group m 1 of
                  Inl e \<Rightarrow> Inl e
                | Inr g \<Rightarrow> Inr (Some (strip g))))"

text \<open>
  \<open>origem_patterns\<close> are \<^verbatim>\<open>De\s+([...]+?)(?:\s*CPF)\<close> and
  \<^verbatim>\<open>Origem.*De\s+([...]+?)(?:\s*\*)\<close>.
\<close>

definition origem_patterns :: "regex list" where
  "origem_patterns =
     [name_between (rlit ''De'') (rlit ''CPF''),
      name_between (rseq [rlit ''Origem'', rstar RAny, rlit ''De'']) (RChar CHR ''*'')]"

fun first_group1 :: "regex list \<Rightarrow> bool \<Rightarrow> string \<Rightarrow> error + string option" where
  "first_group1 [] ic text = Inr None"
| "first_group1 (pattern # patterns) ic text =
     (case re_search pattern ic text of
        None \<Rightarrow> first_group1 patterns ic text
      | Some m \<Rightarrow>
          (case group m 1 of
             Inl e \<Rightarrow> Inl e
           | Inr g \<Rightarrow> Inr (Some (strip g))))"

definition will_bank_origem :: "string \<Rightarrow> error + string option" where
  "will_bank_origem cleaned_text =
     (if str_in ''Antonio Valmi'' cleaned_text then Inr (Some ''Antonio Valmi Passos Da Rocha'')
      else if str_in ''Sheila Fernandes'' cleaned_text then Inr (Some ''Sheila Fernandes Da Silva'')
      else first_group1 origem_patterns True cleaned_text)"

definition will_bank_nomes :: "string option \<Rightarrow> string option \<Rightarrow> pydict \<Rightarrow> pydict" where
  "will_bank_nomes destino_nome origem_nome d =
     (let d = (if opt_str destino_nome \<noteq> []
               then set_str ''recebedor_nome'' (opt_str destino_nome)
                      (set_str ''destino_nome'' (opt_str destino_nome) d)
               else d)
      in if opt_str origem_nome \<noteq> []
         then set_str ''pagador_nome'' (opt_str origem_nome)
                (set_str ''origem_nome'' (opt_str origem_nome) d)
         else d)"

text \<open>Step 3: the tax identifiers that go with the names.\<close>

definition will_bank_cpfs :: "string option \<Rightarrow> string option \<Rightarrow> pydict \<Rightarrow> pydict" where
  "will_bank_cpfs destino_nome origem_nome d =
     (let d = (if opt_str origem_nome \<noteq> [] \<and> str_in ''Antonio'' (opt_str origem_nome)
               then set_str ''pagador_cpf'' ''***,097.048-**''
                      (set_str ''origem_cpf'' ''***,097.048-**'' d)
               else if opt_str origem_nome \<noteq> [] \<and> str_in ''Sheila'' (opt_str origem_nome)
               then set_str ''pagador_cpf'' ''***,687.783-**''
                      (set_str ''origem_cpf'' ''***,687.783-**'' d)
               else d)
      in if opt_str destino_nome \<noteq> [] \<and> str_in ''Ana Cleuma'' (opt_str destino_nome)
         then set_str ''recebedor_cpf'' ''***,120.983-**''
                (set_str ''destino_cpf'' ''***,120.983-**'' d)
         else d)"

text \<open>
  Step 4: the key, by \<^verbatim>\<open>\(88\)\s*99451-5533\<close>, \<^verbatim>\<open>88\s*99451-5533\<close> or
  \<^verbatim>\<open>\+5588994515533\<close>.
\<close>

definition chave_patterns :: "regex list" where
  "chave_patterns =
     [rseq [rlit ''(88)'', rstar rspace, rlit ''99451-5533''],
      rseq [rlit ''88'', rstar rspace, rlit ''99451-5533''],
      rlit ''+5588994515533'']"

definition will_bank_chave :: "string \<Rightarrow> pydict \<Rightarrow> pydict" where
  "will_bank_chave cleaned_text d =
     (if list_ex (\<lambda>pattern. re_search pattern False cleaned_text \<noteq> None) chave_patterns
      then set_str ''chave_pix'' ''(88) 99451-5533'' d
      else d)"

text \<open>Step 5: date and time, by the payer's name.\<close>

definition will_bank_data_hora :: "string option \<Rightarrow> pydict \<Rightarrow> pydict" where
  "will_bank_data_hora origem_nome d =
     (let d = (if opt_str origem_nome \<noteq> [] \<and> str_in ''Antonio'' (opt_str origem_nome)
               then set_str ''hora'' ''17:51:22'' (set_str ''data'' ''20/05/2025'' d)
               else if opt_str origem_nome \<noteq> [] \<and> str_in ''Sheila'' (opt_str origem_nome)
               then set_str ''hora'' ''17:52:04'' (set_str ''data'' ''22/05/2025'' d)
               else d)
      in set_str ''data_hora'' (strip (get_str d ''data'' [] @ '' '' @ get_str d ''hora'' [])) d)"

text \<open>
  Step 6: the fields that are always set. \<open>int\<close> raises on an infinite amount; the format
  \<open>03d\<close> pads the integer, which is not negative here, to three digits.
\<close>

definition will_bank_codigo :: "pyfloat \<Rightarrow> error + string" where
  "will_bank_codigo valor_encontrado =
     (if fless (Finite 0) valor_encontrado
      then (case py_int valor_encontrado of
              Inl e \<Rightarrow> Inl e
            | Inr i \<Rightarrow> Inr (''PIX_WILL_BANK_'' @ zfill 3 (str_int i)))
      else Inr ''PIX_WILL_BANK_000'')"

definition will_bank_obrigatorios :: "string \<Rightarrow> pydict \<Rightarrow> pydict" where
  "will_bank_obrigatorios codigo d =
     set_str ''codigo_operacao'' codigo
       (set_str ''tipo_documento'' ''pix''
         (set_str ''destino_instituicao'' ''NU PAGAMENTOS - IP''
           (set_str ''origem_instituicao'' ''Will Bank''
             (set_str ''situacao'' ''Efetivado'' d))))"

definition extract_pix_will_bank_data :: "string \<Rightarrow> error + pydict" where
  "extract_pix_will_bank_data text =
     (let cleaned_text = correct_common_ocr_errors text;
          valor_encontrado = will_bank_valor cleaned_text;
          d = set_float ''valor_total'' valor_encontrado
                (set_float ''valor_numerico'' valor_encontrado empty_dict)
      in case will_bank_destino destino_patterns cleaned_text of
           Inl e \<Rightarrow> Inl e
         | Inr destino_nome \<Rightarrow>
             (case will_bank_origem cleaned_text of
                Inl e \<Rightarrow> Inl e
              | Inr origem_nome \<Rightarrow>
                  (let d = will_bank_nomes destino_nome origem_nome d;
                       d = will_bank_cpfs destino_nome origem_nome d;
                       d = will_bank_chave cleaned_text d;
                       d = will_bank_data_hora origem_nome d
                   in case will_bank_codigo valor_encontrado of
                        Inl e \<Rightarrow> Inl e
                      | Inr codigo \<Rightarrow> Inr (will_bank_obrigatorios codigo d))))"

section \<open>Extraction for the Nubank layout\<close>

text \<open>
  \<open>OCRExtractor.extract_nubank_data\<close>. Its amount patterns are
  \<^verbatim>\<open>Valor\s+R\$\s*(\d+[,.]?\d{0,2})\<close>, \<^verbatim>\<open>R\$\s*(\d+[,.]?\d{0,2})\<close> and
  \<^verbatim>\<open>(\d+[,.]?\d{2})\s*(?:reais|$)\<close>.
\<close>

definition nubank_valor_patterns :: "regex list" where
  "nubank_valor_patterns =
     [rseq [rlit ''Valor'', rplus rspace, rlit ''R$'', rstar rspace, amount_group 0],
      reais_amount,
      rseq [amount_group 2, rstar rspace, RAlt (rlit ''reais'') REol]]"

text \<open>
  The loop over the amount patterns: the first match of a pattern is a candidate; it is
  taken when it lies between 0.01 and 10000, and otherwise the next pattern is tried.
\<close>

fun nubank_valor :: "regex list \<Rightarrow> string \<Rightarrow> error + pyfloat option" where
  "nubank_valor [] cleaned_text = Inr None"
| "nubank_valor (pattern # patterns) cleaned_text =
     (case re_search pattern False cleaned_text of
        None \<Rightarrow> nubank_valor patterns cleaned_text
      | Some m \<Rightarrow>
          (case group m 1 of
             Inl e \<Rightarrow> Inl e
           | Inr g \<Rightarrow>
               (case py_float (py_replace g '','' ''.'') of
                  Inl e \<Rightarrow> nubank_valor patterns cleaned_text
                | Inr valor \<Rightarrow>
                    if fle (Finite (1 / 100)) valor \<and> fle valor (Finite 10000) then Inr (Some valor)
                    else nubank_valor patterns cleaned_text)))"

text \<open>
  The date patterns \<^verbatim>\<open>(\d{1,2})\s+(MAI|JUN|JUL|AGO|SET|OUT|NOV|DEZ)\s+(\d{4})\<close>,
  \<^verbatim>\<open>(\d{1,2}/\d{1,2}/\d{4})\<close> and \<^verbatim>\<open>(\d{1,2}\s+de\s+\w+\s+de\s+\d{4})\<close>, of which the
  whole match is kept.
\<close>

definition nubank_data_patterns :: "regex list" where
  "nubank_data_patterns =
     [rseq [RGroup 1 (rtimes rdigit 1 2), rplus rspace,
            RGroup 2 (RAlt (rlit ''MAI'') (RAlt (rlit ''JUN'') (RAlt (rlit ''JUL'')
              (RAlt (rlit ''AGO'') (RAlt (rlit ''SET'') (RAlt (rlit ''OUT'')
              (RAlt (rlit ''NOV'') (rlit ''DEZ'')))))))),
            rplus rspace, RGroup 3 (rtimes rdigit 4 4)],
      RGroup 1 (rseq [rtimes rdigit 1 2, RChar CHR ''/'', rtimes rdigit 1 2, RChar CHR ''/'',
                      rtimes rdigit 4 4]),
      RGroup 1 (rseq [rtimes rdigit 1 2, rplus rspace, rlit ''de'', rplus rspace,
                      rplus (RSet [CWord]), rplus rspace, rlit ''de'', rplus rspace,
                      rtimes rdigit 4 4])]"

fun first_group0 :: "regex list \<Rightarrow> string \<Rightarrow> string option" where
  "first_group0 [] text = None"
| "first_group0 (pattern # patterns) text =
     (case re_search pattern False text of
        None \<Rightarrow> first_group0 patterns text
      | Some m \<Rightarrow> Some (group0 m))"

text \<open>
  The time patterns \<^verbatim>\<open>(\d{1,2}:\d{2}:\d{2})\<close>, \<^verbatim>\<open>(\d{1,2}h\d{2})\<close> and
  \<^verbatim>\<open>\<close>\<open>a\<close>\<^verbatim>\<open>s\s+(\d{1,2}:\d{2}:\d{2})\<close>, whose first letter is an a with grave accent.
\<close>

definition hms :: regex where
  "hms = rseq [rtimes rdigit 1 2, RChar CHR '':'', rtimes rdigit 2 2, RChar CHR '':'',
               rtimes rdigit 2 2]"

definition nubank_hora_patterns :: "regex list" where
  "nubank_hora_patterns =
     [RGroup 1 hms,
      RGroup 1 (rseq [rtimes rdigit 1 2, RChar CHR ''h'', rtimes rdigit 2 2]),
      rseq [RChar (CHR 0xE0), RChar CHR ''s'', rplus rspace, RGroup 1 hms]]"

text \<open>The loop over the time patterns keeps group 1 of the first pattern that matches.\<close>

fun first_group1_raw :: "regex list \<Rightarrow> string \<Rightarrow> error + string option" where
  "first_group1_raw [] text = Inr None"
| "first_group1_raw (pattern # patterns) text =
     (case re_search pattern False text of
        None \<Rightarrow> first_group1_raw patterns text
      | Some m \<Rightarrow>
          (case group m 1 of
             Inl e \<Rightarrow> Inl e
           | Inr g \<Rightarrow> Inr (Some g)))"

text \<open>
  The payer patterns \<^verbatim>\<open>Nome\s+([...]+?)(?:\s*Institui\<close>..\<^verbatim>\<open>o)\<close>,
  \<^verbatim>\<open>Origem.*Nome\s+([...]+?)(?:\s*Institui\<close>..\<^verbatim>\<open>o)\<close> and \<^verbatim>\<open>De\s+([...]+?)(?:\s*CPF)\<close>,
  searched with \<open>re.IGNORECASE\<close>; a name of three characters or fewer is passed over.
\<close>

definition instituicao_word :: string where
  "instituicao_word = ''Institui'' @ [CHR 0xE7, CHR 0xE3] @ ''o''"

definition nubank_origem_patterns :: "regex list" where
  "nubank_origem_patterns =
     [name_between (rlit ''Nome'') (rlit instituicao_word),
      name_between (rseq [rlit ''Origem'', rstar RAny, rlit ''Nome'']) (rlit instituicao_word),
      name_between (rlit ''De'') (rlit ''CPF'')]"

fun nubank_origem :: "regex list \<Rightarrow> string \<Rightarrow> error + string option" where
  "nubank_origem [] cleaned_text = Inr None"
| "nubank_origem (pattern # patterns) cleaned_text =
     (case re_search pattern True cleaned_text of
        None \<Rightarrow> nubank_origem patterns cleaned_text
      | Some m \<Rightarrow>
          (case group m 1 of
             Inl e \<Rightarrow> Inl e
           | Inr g \<Rightarrow>
               if 3 < length (strip g) then Inr (Some (strip g))
               else nubank_origem patterns cleaned_text))"

definition set_str_opt :: "string \<Rightarrow> string option \<Rightarrow> pydict \<Rightarrow> pydict" where
  "set_str_opt k v d = (case v of Some s \<Rightarrow> set_str k s d | None \<Rightarrow> d)"

definition extract_nubank_data :: "string \<Rightarrow> error + pydict" where
  "extract_nubank_data text =
     (let d = set_str ''tipo_documento'' ''transferencia'' empty_dict;
          cleaned_text = correct_common_ocr_errors text
      in case nubank_valor nubank_valor_patterns cleaned_text of
           Inl e \<Rightarrow> Inl e
         | Inr valor \<Rightarrow>
             (let d = (case valor of
                         Some v \<Rightarrow> set_float ''valor_numerico'' v (set_float ''valor_total'' v d)
                       | None \<Rightarrow> d);
                  d = set_str_opt ''data'' (first_group0 nubank_data_patterns cleaned_text) d
              in case first_group1_raw nubank_hora_patterns cleaned_text of
                   Inl e \<Rightarrow> Inl e
                 | Inr hora \<Rightarrow>
                     (let d = set_str_opt ''hora'' hora d;
                          d = (if str_in ''Ana Cleuma'' cleaned_text
                               then set_str ''chave_pix'' ''+5588994515533''
                                      (set_str ''recebedor_nome'' ''Ana Cleuma Sousa Dos Santos''
                                        (set_str ''destino_nome'' ''Ana Cleuma Sousa Dos Santos'' d))
                               else d)
                      in case nubank_origem nubank_origem_patterns cleaned_text of
                           Inl e \<Rightarrow> Inl e
                         | Inr nome \<Rightarrow>
                             Inr (set_str ''destino_instituicao'' ''NU PAGAMENTOS - IP''
                                   (set_str ''origem_instituicao'' ''Nubank''
                                     (set_str ''situacao'' ''Efetivado''
                                       (set_str_opt ''pagador_nome'' nome
                                         (set_str_opt ''origem_nome'' nome d))))))))"

section \<open>Generic extraction\<close>

text \<open>
  \<open>OCRExtractor.extract_generic_data\<close>, which \<open>extract_caixa_data\<close> and \<open>extract_bb_data\<close>
  return as well. Its one amount pattern is \<^verbatim>\<open>R\$\s*(\d+[,.]?\d{0,2})\<close>, and whatever is
  raised while the match is converted is caught.
\<close>

definition generic_valor :: "string \<Rightarrow> pyfloat option" where
  "generic_valor text =
     (case re_search reais_amount False text of
        None \<Rightarrow> None
      | Some m \<Rightarrow>
          (case group m 1 of
             Inl e \<Rightarrow> None
           | Inr g \<Rightarrow>
               (case py_float (py_replace g '','' ''.'') of
                  Inl e \<Rightarrow> None
                | Inr valor \<Rightarrow> Some valor)))"

definition transferencia_word :: string where
  "transferencia_word = ''transfer'' @ [CHR 0xEA] @ ''ncia''"

definition extract_generic_data :: "string \<Rightarrow> pydict" where
  "extract_generic_data text =
     (let d = set_str ''tipo_documento'' ''generico'' empty_dict;
          d = (case generic_valor text of
                 Some valor \<Rightarrow> set_float ''valor_numerico'' valor (set_float ''valor_total'' valor d)
               | None \<Rightarrow> d);
          d = (if str_in ''pix'' (lower text) then set_str ''tipo_documento'' ''pix'' d
               else if str_in transferencia_word (lower text) \<or> str_in ''transferencia'' (lower text)
                 then set_str ''tipo_documento'' ''transferencia'' d
               else if str_in ''boleto'' (lower text) then set_str ''tipo_documento'' ''boleto'' d
               else d)
      in if str_in ''Ana Cleuma'' text
         then set_str ''destino_nome'' ''Ana Cleuma Sousa Dos Santos''
                (set_str ''recebedor_nome'' ''Ana Cleuma Sousa Dos Santos'' d)
         else d)"

definition extract_caixa_data :: "string \<Rightarrow> pydict" where
  "extract_caixa_data text = extract_generic_data text"

definition extract_bb_data :: "string \<Rightarrow> pydict" where
  "extract_bb_data text = extract_generic_data text"

section \<open>The pipeline\<close>

text \<open>\<open>OCRExtractor._extract_by_layout\<close>\<close>

definition extract_by_layout :: "string \<Rightarrow> string \<Rightarrow> error + pydict" where
  "extract_by_layout text layout =
     (if layout = ''will_bank'' then extract_pix_will_bank_data text
      else if layout = ''nubank'' then extract_nubank_data text
      else if layout = ''caixa'' then Inr (extract_caixa_data text)
      else if layout = ''bb'' then Inr (extract_bb_data text)
      else Inr (extract_generic_data text))"

text \<open>
  The clock: \<open>datetime.now()\<close> is an argument of the functions that read it, and
  \<open>isoformat\<close> and \<open>strftime('%Y%m%d_%H%M%S')\<close> write it.
\<close>

record datetime =
  dt_year :: nat
  dt_month :: nat
  dt_day :: nat
  dt_hour :: nat
  dt_minute :: nat
  dt_second :: nat
  dt_microsecond :: nat

definition isoformat :: "datetime \<Rightarrow> string" where
  "isoformat t =
     zfill 4 (str_nat (dt_year t)) @ ''-'' @ zfill 2 (str_nat (dt_month t)) @ ''-''
     @ zfill 2 (str_nat (dt_day t)) @ ''T'' @ zfill 2 (str_nat (dt_hour t)) @ '':''
     @ zfill 2 (str_nat (dt_minute t)) @ '':'' @ zfill 2 (str_nat (dt_second t))
     @ (if dt_microsecond t = 0 then [] else ''.'' @ zfill 6 (str_nat (dt_microsecond t)))"

definition strftime_compact :: "datetime \<Rightarrow> string" where
  "strftime_compact t =
     zfill 4 (str_nat (dt_year t)) @ zfill 2 (str_nat (dt_month t)) @ zfill 2 (str_nat (dt_day t))
     @ ''_'' @ zfill 2 (str_nat (dt_hour t)) @ zfill 2 (str_nat (dt_minute t))
     @ zfill 2 (str_nat (dt_second t))"

text \<open>\<open>str(e)\<close> for the exceptions of this model.\<close>

fun error_message :: "error \<Rightarrow> string" where
  "error_message IndexError = ''no such group''"
| "error_message ValueError = ''cannot convert float NaN to integer''"
| "error_message OverflowError = ''cannot convert float infinity to integer''"
| "error_message (ExternalError msg) = msg"

text \<open>\<open>image_path or 'unknown'\<close>\<close>

definition path_or_unknown :: "string option \<Rightarrow> string" where
  "path_or_unknown image_path = (if opt_str image_path = [] then ''unknown'' else opt_str image_path)"

text \<open>
  The dictionary that \<open>extract_data\<close> returns when there is nothing to extract from:
  \<open>erro\<close>, an empty \<open>raw_text\<close>, the layout marker, the file and the time.
\<close>

definition error_result :: "string \<Rightarrow> string \<Rightarrow> string option \<Rightarrow> datetime \<Rightarrow> pydict" where
  "error_result erro layout image_path now =
     set_str ''processado_em'' (isoformat now)
       (set_str ''arquivo'' (path_or_unknown image_path)
         (set_str ''layout_detectado'' layout
           (set_str ''raw_text'' []
             (set_str ''erro'' erro empty_dict))))"

definition nenhum_texto :: string where
  "nenhum_texto = ''Nenhum texto extra'' @ [CHR 0xED] @ ''do da imagem''"

text \<open>
  The body of the \<open>try\<close> of \<open>OCRExtractor.extract_data\<close>. The image is read outside this
  model: \<open>ocr\<close> is what \<open>preprocess_image\<close> and \<open>pytesseract.image_to_string\<close> give for it,
  the recognised text or the exception that one of them raised, and
  \<open>helpers.extract_text_from_image\<close> strips the text.
\<close>

definition extract_text_from_image :: "error + string \<Rightarrow> error + string" where
  "extract_text_from_image ocr = (case ocr of Inl e \<Rightarrow> Inl e | Inr text \<Rightarrow> Inr (strip text))"

definition extract_data_try :: "error + string \<Rightarrow> string option \<Rightarrow> datetime \<Rightarrow> error + pydict" where
  "extract_data_try ocr image_path now =
     (case extract_text_from_image ocr of
        Inl e \<Rightarrow> Inl e
      | Inr raw_text \<Rightarrow>
          if strip raw_text = [] then Inr (error_result nenhum_texto ''vazio'' image_path now)
          else
            (let cleaned_text = correct_common_ocr_errors raw_text;
                 layout = detect_document_layout cleaned_text
             in case extract_by_layout cleaned_text layout of
                  Inl e \<Rightarrow> Inl e
                | Inr extracted_data \<Rightarrow>
                    Inr (set_str ''processado_em'' (isoformat now)
                          (set_str ''arquivo'' (path_or_unknown image_path)
                            (set_str ''layout_detectado'' layout
                              (set_str ''cleaned_text'' cleaned_text
                                (set_str ''raw_text'' raw_text extracted_data)))))))"

text \<open>\<open>OCRExtractor.extract_data\<close>: whatever the body raises becomes an error dictionary.\<close>

definition extract_data :: "error + string \<Rightarrow> string option \<Rightarrow> datetime \<Rightarrow> pydict" where
  "extract_data ocr image_path now =
     (case extract_data_try ocr image_path now of
        Inr d \<Rightarrow> d
      | Inl e \<Rightarrow> error_result (error_message e) ''erro'' image_path now)"

section \<open>The canonical record\<close>

text \<open>
  \<open>helpers.validate_specific_patterns\<close>. The second argument of the source is not read and
  is left out. The messages are the source's without the check mark or the cross that
  starts each of them, which no claim reads and which are not Latin-1.
\<close>

record validation =
  matches :: "string list"
  mismatches :: "string list"
  confidence :: rat

definition destinataria_word :: string where
  "destinataria_word = ''Destinat'' @ [CHR 0xE1] @ ''ria''"

definition nao_word :: string where
  "nao_word = ''n'' @ [CHR 0xE3] @ ''o''"

text \<open>The checks of the payee: one match for the name, then a match or a mismatch for the key.\<close>

definition ana_cleuma_checks :: "pydict \<Rightarrow> string list \<times> string list" where
  "ana_cleuma_checks d =
     (if has_key d ''destino_nome'' \<or> has_key d ''recebedor_nome'' then
        (let nome_dest = (if get_str d ''destino_nome'' [] \<noteq> [] then get_str d ''destino_nome'' []
                          else get_str d ''recebedor_nome'' [])
         in if str_in ''Ana Cleuma'' nome_dest then
              (if str_in ''99451-5533'' (get_str d ''chave_pix'' [])
               then ([destinataria_word @ '' Ana Cleuma identificada'',
                      ''Chave PIX Ana Cleuma confirmada''], [])
               else ([destinataria_word @ '' Ana Cleuma identificada''],
                     [''Chave PIX '' @ nao_word @ '' confere com Ana Cleuma'']))
            else ([], []))
      else ([], []))"

text \<open>
  The checks of the Will Bank layout: one match for the bank, and one for the first of
  the three identifier fields that holds both a comma and a dot. \<open>data.get(k) == s\<close>
  holds when the key is there with that string.
\<close>

definition will_bank_checks :: "pydict \<Rightarrow> string list" where
  "will_bank_checks d =
     (if strs d ''origem_instituicao'' = Some ''Will Bank''
         \<or> strs d ''layout_detectado'' = Some ''will_bank''
      then ''Will Bank detectado'' #
           (case find (\<lambda>cpf_field.
                         let c = get_str d cpf_field []
                         in c \<noteq> [] \<and> str_in '','' c \<and> str_in ''.'' c)
                   [''origem_cpf'', ''pagador_cpf'', ''destino_cpf''] of
              Some cpf_field \<Rightarrow> [''CPF formato Will Bank: '' @ cpf_field]
            | None \<Rightarrow> [])
      else [])"

definition validate_specific_patterns :: "pydict \<Rightarrow> validation" where
  "validate_specific_patterns d =
     (let ms = fst (ana_cleuma_checks d) @ will_bank_checks d;
          mm = snd (ana_cleuma_checks d);
          total_checks = length ms + length mm
      in \<lparr>matches = ms, mismatches = mm,
          confidence = (if 0 < total_checks then of_nat (length ms) / of_nat total_checks else 0)\<rparr>)"

text \<open>
  \<open>helpers.standardize_data_for_chatbot\<close>. The fields are the keys of the dictionary it
  returns, the keys of its nested dictionaries written with the name of the dictionary
  before them.
\<close>

record standardized =
  id_unico :: string
  tipo_transacao :: string
  valor_formatado :: string
  std_valor_numerico :: pyfloat
  data_formatada :: string
  hora_formatada :: string
  origem_nome :: string
  origem_cpf :: string
  origem_instituicao :: string
  destino_nome :: string
  destino_cpf :: string
  destino_instituicao :: string
  destino_chave_pix :: string
  detalhes_id :: string
  detalhes_autenticacao :: string
  detalhes_situacao :: string
  detalhes_descricao :: string
  banco_detectado :: string
  arquivo_origem :: string
  processado_em :: string
  confiabilidade :: string

text \<open>\<open>a or b\<close> on strings, and on the two amounts of a dictionary with the default 0.\<close>

definition str_or :: "string \<Rightarrow> string \<Rightarrow> string" where
  "str_or a b = (if a \<noteq> [] then a else b)"

definition valor_of :: "pydict \<Rightarrow> pyfloat" where
  "valor_of d =
     (if float_truthy (get_float d ''valor_total'' (Finite 0)) then get_float d ''valor_total'' (Finite 0)
      else get_float d ''valor_numerico'' (Finite 0))"

definition standardize_data_for_chatbot :: "pydict \<Rightarrow> datetime \<Rightarrow> standardized" where
  "standardize_data_for_chatbot d now =
     \<lparr>id_unico = get_str d ''arquivo'' ''unknown'' @ ''_'' @ strftime_compact now,
      tipo_transacao = get_str d ''tipo_documento'' ''desconhecido'',
      valor_formatado = format_currency (valor_of d),
      std_valor_numerico = valor_of d,
      data_formatada = get_str d ''data'' [],
      hora_formatada = get_str d ''hora'' [],
      origem_nome = str_or (get_str d ''origem_nome'' []) (get_str d ''pagador_nome'' []),
      origem_cpf = str_or (get_str d ''origem_cpf'' []) (get_str d ''pagador_cpf'' []),
      origem_instituicao =
        str_or (get_str d ''origem_instituicao'' []) (get_str d ''pagador_instituicao'' []),
      destino_nome = str_or (get_str d ''destino_nome'' []) (get_str d ''recebedor_nome'' []),
      destino_cpf = str_or (get_str d ''destino_cpf'' []) (get_str d ''recebedor_cpf'' []),
      destino_instituicao = get_str d ''destino_instituicao'' [],
      destino_chave_pix = get_str d ''chave_pix'' [],
      detalhes_id = get_str d ''id_transacao'' [],
      detalhes_autenticacao = get_str d ''autenticacao'' [],
      detalhes_situacao = get_str d ''situacao'' [],
      detalhes_descricao = get_str d ''descricao'' [],
      banco_detectado = get_str d ''layout_detectado'' [],
      arquivo_origem = get_str d ''arquivo'' [],
      processado_em = get_str d ''processado_em'' [],
      confiabilidade =
        (if fless (Finite 0) (get_float d ''valor_total'' (Finite 0)) then ''alta'' else ''baixa'')\<rparr>"

text \<open>
  \<open>s.title()\<close>: a cased character is put in upper case after an uncased one and in lower
  case after a cased one. The micro sign, the sharp s and the y with diaeresis, whose
  title case lies outside Latin-1, are left as they are.
\<close>

definition iscased :: "char \<Rightarrow> bool" where
  "iscased c = (c \<in> set upper_letters \<or> c \<in> set lower_letters
     \<or> c \<in> set [CHR 0xAA, CHR 0xB5, CHR 0xBA, CHR 0xDF, CHR 0xFF])"

fun title_from :: "bool \<Rightarrow> string \<Rightarrow> string" where
  "title_from previous_is_cased [] = []"
| "title_from previous_is_cased (c # s) =
     (if previous_is_cased then lower_char c else upper_char c) # title_from (iscased c) s"

definition title :: "string \<Rightarrow> string" where
  "title s = title_from False s"

text \<open>
  The record that \<open>main.create_chatbot_ready_data\<close> returns, with the nesting of the
  source: the two parties, the summary, the details of the operation, the metadata with
  the validations, and the queries.
\<close>

record resumo =
  tipo :: string
  valor :: string
  valor_numerico :: pyfloat
  data_completa :: string
  status :: string

record pessoa =
  nome_completo :: string
  documento :: string
  banco :: string
  tipo_pessoa :: string

record pessoa_pix = pessoa +
  chave_pix :: string

record participantes =
  origem :: pessoa
  destino :: pessoa_pix

record detalhes_operacao =
  codigo_transacao :: string
  codigo_autenticacao :: string
  descricao_operacao :: string
  tipo_operacao :: string
  canal_utilizado :: string

record validacoes =
  padroes_reconhecidos :: "string list"
  alertas :: "string list"
  score_confianca :: rat

record metadados_sistema =
  arquivo_fonte :: string
  data_processamento :: string
  nivel_confianca :: string
  metadados_validacoes :: validacoes

record consultas_chatbot =
  query_valor :: string
  query_destinatario :: string
  query_data :: string
  query_tipo :: string
  tags_busca :: "string list"

record receipt =
  id_transacao :: string
  receipt_resumo :: resumo
  receipt_participantes :: participantes
  receipt_detalhes_operacao :: detalhes_operacao
  receipt_metadados_sistema :: metadados_sistema
  receipt_consultas_chatbot :: consultas_chatbot

definition pf_or_pj :: "string \<Rightarrow> string" where
  "pf_or_pj cpf_str = (if cpf_str \<noteq> [] then ''PF'' else ''PJ'')"

text \<open>
  The tag \<open>valor_N\<close>, where \<open>int\<close> raises on an infinite amount, and the words of the
  queries that are not ASCII.
\<close>

definition valor_tag :: "pyfloat \<Rightarrow> error + string" where
  "valor_tag v =
     (if fless (Finite 0) v
      then (case py_int v of Inl e \<Rightarrow> Inl e | Inr i \<Rightarrow> Inr (''valor_'' @ str_int i))
      else Inr [])"

definition transacao_de :: string where
  "transacao_de = ''transa'' @ [CHR 0xE7, CHR 0xE3] @ ''o de ''"

definition operacao_em :: string where
  "operacao_em = ''opera'' @ [CHR 0xE7, CHR 0xE3] @ ''o em ''"

definition transferencia_title :: string where
  "transferencia_title = ''Transfer'' @ [CHR 0xEA] @ ''ncia''"

definition create_chatbot_ready_data :: "pydict \<Rightarrow> datetime \<Rightarrow> error + receipt" where
  "create_chatbot_ready_data comprovante_dict now =
     (let std = standardize_data_for_chatbot comprovante_dict now;
          pattern_validation = validate_specific_patterns comprovante_dict
      in case valor_tag (std_valor_numerico std) of
           Inl e \<Rightarrow> Inl e
         | Inr tag \<Rightarrow>
             Inr \<lparr>id_transacao = id_unico std,
                  receipt_resumo =
                    \<lparr>tipo = tipo_transacao std,
                     valor = valor_formatado std,
                     valor_numerico = std_valor_numerico std,
                     data_completa = strip (data_formatada std @ '' '' @ hora_formatada std),
                     status = get_str comprovante_dict ''situacao'' ''Processado''\<rparr>,
                  receipt_participantes =
                    \<lparr>origem =
                       \<lparr>nome_completo = origem_nome std,
                        documento = origem_cpf std,
                        banco = origem_instituicao std,
                        tipo_pessoa = pf_or_pj (origem_cpf std)\<rparr>,
                     destino =
                       \<lparr>nome_completo = destino_nome std,
                        documento = destino_cpf std,
                        banco = destino_instituicao std,
                        tipo_pessoa = pf_or_pj (destino_cpf std),
                        chave_pix = destino_chave_pix std\<rparr>\<rparr>,
                  receipt_detalhes_operacao =
                    \<lparr>codigo_transacao = detalhes_id std,
                     codigo_autenticacao = detalhes_autenticacao std,
                     descricao_operacao = detalhes_descricao std,
                     tipo_operacao =
                       (if str_in ''pix'' (lower (tipo_transacao std)) then ''PIX''
                        else transferencia_title),
                     canal_utilizado = title (py_replace (banco_detectado std) ''_'' '' '')\<rparr>,
                  receipt_metadados_sistema =
                    \<lparr>arquivo_fonte = arquivo_origem std,
                     data_processamento = processado_em std,
                     nivel_confianca = confiabilidade std,
                     metadados_validacoes =
                       \<lparr>padroes_reconhecidos = matches pattern_validation,
                        alertas = mismatches pattern_validation,
                        score_confianca = confidence pattern_validation\<rparr>\<rparr>,
                  receipt_consultas_chatbot =
                    \<lparr>query_valor = transacao_de @ valor_formatado std,
                     query_destinatario = ''pagamento para '' @ destino_nome std,
                     query_data = operacao_em @ data_formatada std,
                     query_tipo = tipo_transacao std @ '' via '' @ banco_detectado std,
                     tags_busca =
                       [lower (tipo_transacao std), banco_detectado std,
                        (if destino_nome std \<noteq> [] then lower (destino_nome std) else []),
                        tag]\<rparr>\<rparr>)"

section \<open>Notions used in the proofs\<close>


text \<open>
  Two characters have the same shape when they are equal, both decimal digits, or both one
  of the separators dot and comma; two strings have the same format when their characters
  have the same shape position by position.
\<close>

definition same_shape :: "char \<Rightarrow> char \<Rightarrow> bool" where
  "same_shape c d =
     (c = d \<or> (isdigit c \<and> isdigit d)
      \<or> (c \<in> set [CHR ''.'', CHR '',''] \<and> d \<in> set [CHR ''.'', CHR '','']))"




text \<open>The thousands separators written with dots, as the Brazilian format has them.\<close>

definition dotted :: "string \<Rightarrow> string" where
  "dotted ds = map (\<lambda>x. if x = CHR '','' then CHR ''.'' else x) (thousands ds)"

text \<open>
  A matcher state holds a group when the group has been set on the way to it, and a
  pattern always sets a group when every way through the pattern goes through the group.
\<close>

definition has_group :: "nat \<Rightarrow> mstate \<Rightarrow> bool" where
  "has_group n st = (map_of (caps st) n \<noteq> None)"

primrec always_sets :: "nat \<Rightarrow> regex \<Rightarrow> bool" where
  "always_sets n (RChar a) = False"
| "always_sets n (RSet items) = False"
| "always_sets n RAny = False"
| "always_sets n (RSeq r1 r2) = (always_sets n r1 \<or> always_sets n r2)"
| "always_sets n (RAlt r1 r2) = (always_sets n r1 \<and> always_sets n r2)"
| "always_sets n (RRep r lo hi greedy) = (0 < lo \<and> always_sets n r)"
| "always_sets n (RGroup m r) = (m = n \<or> always_sets n r)"
| "always_sets n RBol = False"
| "always_sets n REol = False"
| "always_sets n REps = False"

text \<open>
  The sanity range of the Nubank amounts, and the candidate amounts of a text: for each
  amount pattern that matches, in the order of the patterns, the number that its first
  match reads as.
\<close>

definition in_range :: "pyfloat \<Rightarrow> bool" where
  "in_range v = (fle (Finite (1 / 100)) v \<and> fle v (Finite 10000))"

definition nubank_candidate :: "regex \<Rightarrow> string \<Rightarrow> pyfloat option" where
  "nubank_candidate pattern text =
     (case re_search pattern False text of
        None \<Rightarrow> None
      | Some m \<Rightarrow>
          (case group m 1 of
             Inl e \<Rightarrow> None
           | Inr g \<Rightarrow>
               (case py_float (py_replace g '','' ''.'') of
                  Inl e \<Rightarrow> None
                | Inr v \<Rightarrow> Some v)))"

definition nubank_candidates :: "string \<Rightarrow> pyfloat list" where
  "nubank_candidates text = List.map_filter (\<lambda>pattern. nubank_candidate pattern text) nubank_valor_patterns"

section \<open>Facts about substrings\<close>

lemma startswith_iff: "startswith s p \<longleftrightarrow> (\<exists>b. s = p @ b)"
  by (induction s p rule: startswith.induct) auto

lemma str_in_iff: "str_in p s \<longleftrightarrow> (\<exists>a b. s = a @ p @ b)"
proof (induction s)
  case Nil
  then show ?case by auto
next
  case (Cons c s)
  show ?case
  proof
    assume "str_in p (c # s)"
    then consider "startswith (c # s) p" | "str_in p s" by auto
    then show "\<exists>a b. c # s = a @ p @ b"
    proof cases
      case 1
      then obtain b where "c # s = p @ b" by (auto simp: startswith_iff)
      then have "c # s = [] @ p @ b" by simp
      then show ?thesis by blast
    next
      case 2
      then obtain a b where "s = a @ p @ b" using Cons.IH by auto
      then have "c # s = (c # a) @ p @ b" by simp
      then show ?thesis by blast
    qed
  next
    assume "\<exists>a b. c # s = a @ p @ b"
    then obtain a b where ab: "c # s = a @ p @ b" by blast
    show "str_in p (c # s)"
    proof (cases a)
      case Nil
      with ab have "startswith (c # s) p" by (auto simp: startswith_iff)
      then show ?thesis by simp
    next
      case (Cons x a')
      with ab have "s = a' @ p @ b" by simp
      then have "str_in p s" using Cons.IH by blast
      then show ?thesis by simp
    qed
  qed
qed

section \<open>The classifier\<close>

lemma detect_document_layout_table:
  "detect_document_layout text = first_signature helpers_signatures text"
  by (simp add: detect_document_layout_def first_signature_def helpers_signatures_def
      signature_matches_def Let_def)

lemma OCRExtractor_detect_document_layout_table:
  "OCRExtractor_detect_document_layout text = first_signature extractor_signatures text"
  by (simp add: OCRExtractor_detect_document_layout_def first_signature_def
      extractor_signatures_def signature_matches_def Let_def)

lemma first_signature_none:
  "\<forall>sig \<in> set table. \<not> signature_matches text sig \<Longrightarrow> first_signature table text = ''generico''"
  by (induction table) (auto simp: first_signature_def)

text \<open>
  C5. Both copies of the layout classifier are total functions of the text that test the
  keyword signatures in priority order and return the layout of the first signature that
  matches; on a text that no signature matches they return \<open>generico\<close>.
\<close>

theorem C5_classifier_first_match_or_generic:
  "detect_document_layout text = first_signature helpers_signatures text
   \<and> OCRExtractor_detect_document_layout text = first_signature extractor_signatures text
   \<and> ((\<forall>sig \<in> set helpers_signatures. \<not> signature_matches text sig)
        \<longrightarrow> detect_document_layout text = ''generico'')
   \<and> ((\<forall>sig \<in> set extractor_signatures. \<not> signature_matches text sig)
        \<longrightarrow> OCRExtractor_detect_document_layout text = ''generico'')"
  using detect_document_layout_table OCRExtractor_detect_document_layout_table
    first_signature_none by presburger

theorem C5_classifier_witness:
  "list_all (\<lambda>sig. \<not> signature_matches ''Recibo de pagamento'' sig) helpers_signatures
   \<and> list_all (\<lambda>sig. \<not> signature_matches ''Recibo de pagamento'' sig) extractor_signatures
   \<and> detect_document_layout ''Recibo de pagamento'' = ''generico''
   \<and> OCRExtractor_detect_document_layout ''Recibo de pagamento'' = ''generico''
   \<and> detect_document_layout ''Banco Bradesco, ag. Itau'' = ''bradesco''
   \<and> first_signature helpers_signatures ''Banco Bradesco, ag. Itau'' = ''bradesco''"
proof -
  have h: "list_all (\<lambda>sig. \<not> signature_matches ''Recibo de pagamento'' sig) helpers_signatures"
    by code_simp
  have e: "list_all (\<lambda>sig. \<not> signature_matches ''Recibo de pagamento'' sig) extractor_signatures"
    by code_simp
  have b: "first_signature helpers_signatures ''Banco Bradesco, ag. Itau'' = ''bradesco''"
    by code_simp
  note r = C5_classifier_first_match_or_generic [of "''Recibo de pagamento''"]
  note i = C5_classifier_first_match_or_generic [of "''Banco Bradesco, ag. Itau''"]
  from h have h': "\<forall>sig \<in> set helpers_signatures. \<not> signature_matches ''Recibo de pagamento'' sig"
    by (simp only: list_all_iff)
  from e have e': "\<forall>sig \<in> set extractor_signatures. \<not> signature_matches ''Recibo de pagamento'' sig"
    by (simp only: list_all_iff)
  from r h' have 1: "detect_document_layout ''Recibo de pagamento'' = ''generico''"
    by blast
  from r e' have 2: "OCRExtractor_detect_document_layout ''Recibo de pagamento'' = ''generico''"
    by blast
  from i b have 3: "detect_document_layout ''Banco Bradesco, ag. Itau'' = ''bradesco''"
    by metis
  from h e 1 2 3 b show ?thesis
    by blast
qed

text \<open>
  C7. The two copies of the layout classifier have drifted apart: on the text \<open>Nubank\<close>
  the method of the extractor module answers \<open>nubank\<close> and the function of the helpers
  module answers \<open>generico\<close>, so the two are different functions.
\<close>

theorem C7_layout_copies_differ:
  "OCRExtractor_detect_document_layout ''Nubank'' = ''nubank''
   \<and> detect_document_layout ''Nubank'' = ''generico''
   \<and> (\<exists>text. OCRExtractor_detect_document_layout text \<noteq> detect_document_layout text)
   \<and> OCRExtractor_detect_document_layout \<noteq> detect_document_layout"
proof -
  have a: "OCRExtractor_detect_document_layout ''Nubank'' = ''nubank''"
    by code_simp
  have b: "detect_document_layout ''Nubank'' = ''generico''"
    by code_simp
  have c: "OCRExtractor_detect_document_layout ''Nubank'' \<noteq> detect_document_layout ''Nubank''"
    unfolding a b by simp
  then have d: "OCRExtractor_detect_document_layout \<noteq> detect_document_layout"
    by metis
  from a b c d show ?thesis by blast
qed

section \<open>What a match consumes\<close>





section \<open>The tax identifier validator\<close>





lemma strip_no_space:
  assumes "s \<noteq> []" "\<not> isspace (hd s)" "\<not> isspace (last s)"
  shows "strip s = s"
proof -
  from assms have 1: "dropWhile isspace s = s" by (cases s) auto
  from assms have "rev s \<noteq> []" "\<not> isspace (hd (rev s))" by (auto simp: hd_rev)
  then have "dropWhile isspace (rev s) = rev s" by (cases "rev s") auto
  with 1 show ?thesis by (simp add: strip_def)
qed

lemma isdigit_not_space: "isdigit c \<Longrightarrow> \<not> isspace c"
  by (auto simp: isdigit_def isspace_def)









lemma same_shape_digit: "same_shape c d \<Longrightarrow> isdigit c = isdigit d"
  by (auto simp: same_shape_def isdigit_def)





section \<open>Replacing single characters\<close>

lemma replace_from_single:
  "replace_from [a] [b] s = map (\<lambda>x. if x = a then b else x) s"
  by (induction s) auto

lemma replace_from_delete:
  "replace_from [a] [] s = filter (\<lambda>x. x \<noteq> a) s"
  by (induction s) auto

lemma py_replace_single: "py_replace s [a] [b] = map (\<lambda>x. if x = a then b else x) s"
  by (simp add: py_replace_def replace_from_single)

lemma py_replace_delete: "py_replace s [a] [] = filter (\<lambda>x. x \<noteq> a) s"
  by (simp add: py_replace_def replace_from_delete)

section \<open>Digits\<close>

lemma isdigit_cases:
  "isdigit c \<longleftrightarrow> c = CHR ''0'' \<or> c = CHR ''1'' \<or> c = CHR ''2'' \<or> c = CHR ''3'' \<or> c = CHR ''4''
     \<or> c = CHR ''5'' \<or> c = CHR ''6'' \<or> c = CHR ''7'' \<or> c = CHR ''8'' \<or> c = CHR ''9''"
  by (auto simp: isdigit_def)

lemma digit_char_isdigit: "n < 10 \<Longrightarrow> isdigit (digit_char n)"
proof -
  assume "n < 10"
  then have "n \<in> {0, 1, 2, 3, 4, 5, 6, 7, 8, 9}" by auto
  then show ?thesis by (auto simp: digit_char_def isdigit_def)
qed

lemma digit_val_digit_char: "n < 10 \<Longrightarrow> digit_val (digit_char n) = n"
proof -
  assume "n < 10"
  then have "n \<in> {0, 1, 2, 3, 4, 5, 6, 7, 8, 9}" by auto
  then show ?thesis by (auto simp: digit_char_def digit_val_def)
qed

declare str_nat.simps [simp del]

lemma str_nat_digits: "list_all isdigit (str_nat n)"
proof (induction n rule: str_nat.induct)
  case (1 n)
  show ?case
  proof (cases "n < 10")
    case True
    then show ?thesis by (subst str_nat.simps) (simp add: digit_char_isdigit)
  next
    case False
    with 1 show ?thesis by (subst str_nat.simps) (simp add: digit_char_isdigit)
  qed
qed

lemma str_nat_nonempty: "str_nat n \<noteq> []"
  by (subst str_nat.simps) simp

lemma nat_of_digits_snoc: "nat_of_digits (ds @ [c]) = 10 * nat_of_digits ds + digit_val c"
  by (simp add: nat_of_digits_def)

lemma nat_of_digits_str_nat: "nat_of_digits (str_nat n) = n"
proof (induction n rule: str_nat.induct)
  case (1 n)
  show ?case
  proof (cases "n < 10")
    case True
    then show ?thesis
      by (subst str_nat.simps) (simp add: nat_of_digits_def digit_val_digit_char)
  next
    case False
    with 1 have "nat_of_digits (str_nat (n div 10)) = n div 10" by simp
    with False show ?thesis
      by (subst str_nat.simps) (simp add: nat_of_digits_snoc digit_val_digit_char)
  qed
qed

lemma length_str_nat_small: "n < 10 \<Longrightarrow> length (str_nat n) = 1"
  by (subst str_nat.simps) simp

lemma length_str_nat_two: "10 \<le> n \<Longrightarrow> n < 100 \<Longrightarrow> length (str_nat n) = 2"
  by (subst str_nat.simps) (simp add: length_str_nat_small)

lemma nat_of_digits_zero_cons: "nat_of_digits (CHR ''0'' # ds) = nat_of_digits ds"
  by (simp add: nat_of_digits_def digit_val_def)

lemma zfill2_props:
  assumes "m < 100"
  shows "length (zfill 2 (str_nat m)) = 2"
    and "list_all isdigit (zfill 2 (str_nat m))"
    and "nat_of_digits (zfill 2 (str_nat m)) = m"
proof -
  show "length (zfill 2 (str_nat m)) = 2"
    using assms by (cases "m < 10") (simp_all add: zfill_def length_str_nat_small length_str_nat_two)
  have z: "isdigit CHR ''0''" by (simp add: isdigit_def)
  show "list_all isdigit (zfill 2 (str_nat m))"
    using str_nat_digits [of m] z by (auto simp: zfill_def list_all_iff)
  show "nat_of_digits (zfill 2 (str_nat m)) = m"
  proof (cases "m < 10")
    case True
    then have "zfill 2 (str_nat m) = CHR ''0'' # str_nat m"
      by (simp add: zfill_def length_str_nat_small)
    then show ?thesis by (simp add: nat_of_digits_zero_cons nat_of_digits_str_nat)
  next
    case False
    with assms have "zfill 2 (str_nat m) = str_nat m"
      by (simp add: zfill_def length_str_nat_two)
    then show ?thesis by (simp add: nat_of_digits_str_nat)
  qed
qed

section \<open>Parsing floats\<close>

lemma digitpart_digits:
  "list_all isdigit ds \<Longrightarrow> r = [] \<or> (\<not> isdigit (hd r) \<and> hd r \<noteq> CHR ''_'') \<Longrightarrow>
     digitpart (ds @ r) = (ds, r)"
proof (induction ds)
  case Nil
  then show ?case
    by (cases r rule: digitpart.cases) auto
next
  case (Cons c ds)
  then have c: "isdigit c" and ds: "list_all isdigit ds" by auto
  show ?case
  proof (cases "ds @ r")
    case Nil
    with c show ?thesis by simp
  next
    case (Cons d s)
    have d: "d \<noteq> CHR ''_''"
    proof (cases ds)
      case Nil
      with Cons Cons.prems(2) show ?thesis by auto
    next
      case (Cons x xs)
      with \<open>ds @ r = d # s\<close> ds have "isdigit d" by auto
      then show ?thesis by (auto simp: isdigit_def)
    qed
    from Cons.IH [OF ds Cons.prems(2)] Cons have "digitpart (d # s) = (ds, r)" by simp
    with c d Cons show ?thesis by simp
  qed
qed

lemma lower_char_digit: "isdigit c \<Longrightarrow> lower_char c = c"
proof -
  have "\<forall>c \<in> set ''0123456789''. lower_char c = c"
    by code_simp
  then show "isdigit c \<Longrightarrow> lower_char c = c"
    by (simp only: isdigit_def)
qed

lemma py_float_decimal:
  assumes ip: "list_all isdigit ip" "ip \<noteq> []" and fp: "list_all isdigit fp" "fp \<noteq> []"
  shows "py_float (ip @ CHR ''.'' # fp) =
           Inr (Finite (of_nat (nat_of_digits ip) + of_nat (nat_of_digits fp) / 10 ^ length fp))"
proof -
  let ?s = "ip @ CHR ''.'' # fp"
  from ip obtain c ip' where c: "ip = c # ip'" "isdigit c" by (cases ip) auto
  from fp have "isdigit (last fp)" by (auto simp: list_all_iff)
  then have "\<not> isspace (hd ?s)" "\<not> isspace (last ?s)"
    using c fp by (auto dest: isdigit_not_space)
  then have strip: "strip ?s = ?s" by (intro strip_no_space) auto
  have sign: "sign_of ?s = (False, ?s)"
    using c by (auto simp: isdigit_def)
  have "hd (lower ?s) = c"
    using c by (simp add: lower_def lower_char_digit)
  then have special: "lower ?s \<noteq> ''inf''" "lower ?s \<noteq> ''infinity''" "lower ?s \<noteq> ''nan''"
    using c by (auto simp: isdigit_def)
  have d1: "digitpart ?s = (ip, CHR ''.'' # fp)"
    using ip by (intro digitpart_digits) (auto simp: isdigit_def)
  have d2: "digitpart fp = (fp, [])"
    using digitpart_digits [OF fp(1), of "[]"] by simp
  have "float_number ?s =
      Some (of_nat (nat_of_digits ip) + of_nat (nat_of_digits fp) / 10 ^ length fp)"
    using ip by (simp add: float_number_def d1 d2 exponent_of_def scale10_def)
  with strip sign special show ?thesis
    by (simp add: py_float_def)
qed

lemma py_float_integer:
  assumes ip: "list_all isdigit ip" "ip \<noteq> []"
  shows "py_float ip = Inr (Finite (of_nat (nat_of_digits ip)))"
proof -
  from ip obtain c ip' where c: "ip = c # ip'" "isdigit c" by (cases ip) auto
  from ip have "isdigit (last ip)" by (auto simp: list_all_iff)
  then have "\<not> isspace (hd ip)" "\<not> isspace (last ip)"
    using c by (auto dest: isdigit_not_space)
  then have strip: "strip ip = ip" using ip by (intro strip_no_space) auto
  have sign: "sign_of ip = (False, ip)"
    using c by (auto simp: isdigit_def)
  have "hd (lower ip) = c"
    using c by (simp add: lower_def lower_char_digit)
  then have special: "lower ip \<noteq> ''inf''" "lower ip \<noteq> ''infinity''" "lower ip \<noteq> ''nan''"
    using c by (auto simp: isdigit_def)
  have d1: "digitpart ip = (ip, [])"
    using digitpart_digits [OF ip(1), of "[]"] by simp
  have "float_number ip = Some (of_nat (nat_of_digits ip))"
    using ip by (simp add: float_number_def d1)
  with strip sign special show ?thesis
    by (simp add: py_float_def)
qed

section \<open>Formatting amounts\<close>

lemma str_in_single: "str_in [a] s \<longleftrightarrow> a \<in> set s"
  by (induction s) auto

lemma round_half_even_of_nat: "round_half_even (of_nat n) = n"
  by (simp add: round_half_even_def Let_def)

declare thousands.simps [simp del]

lemma thousands_chars: "set (thousands s) \<subseteq> insert CHR '','' (set s)"
proof (induction s rule: thousands.induct)
  case (1 s)
  show ?case
  proof (cases "length s \<le> 3")
    case True
    then show ?thesis by (subst thousands.simps) auto
  next
    case False
    have "set (take (length s - 3) s) \<subseteq> set s" "set (drop (length s - 3) s) \<subseteq> set s"
      by (auto dest: in_set_takeD in_set_dropD)
    with False 1 show ?thesis by (subst thousands.simps) auto
  qed
qed

lemma thousands_filter:
  "CHR '','' \<notin> set s \<Longrightarrow> filter (\<lambda>x. x \<noteq> CHR '','') (thousands s) = s"
proof (induction s rule: thousands.induct)
  case (1 s)
  show ?case
  proof (cases "length s \<le> 3")
    case True
    with 1 show ?thesis by (subst thousands.simps) (auto simp: filter_id_conv)
  next
    case False
    have sub: "set (take (length s - 3) s) \<subseteq> set s" "set (drop (length s - 3) s) \<subseteq> set s"
      by (auto dest: in_set_takeD in_set_dropD)
    with 1 have a: "filter (\<lambda>x. x \<noteq> CHR '','') (thousands (take (length s - 3) s))
        = take (length s - 3) s"
      using False by auto
    from sub 1(2) have b: "filter (\<lambda>x. x \<noteq> CHR '','') (drop (length s - 3) s) = drop (length s - 3) s"
      by (auto simp: filter_id_conv)
    from False a b show ?thesis by (subst thousands.simps) simp
  qed
qed

lemma isdigit_neq:
  "isdigit c \<Longrightarrow> c \<noteq> CHR '',''" "isdigit c \<Longrightarrow> c \<noteq> CHR ''.''" "isdigit c \<Longrightarrow> c \<noteq> CHR ''X''"
  "isdigit c \<Longrightarrow> c \<noteq> CHR ''R''" "isdigit c \<Longrightarrow> c \<noteq> CHR ''$''"
  by (auto simp: isdigit_def)

lemma digits_set: "list_all isdigit ds \<Longrightarrow> c \<in> set ds \<Longrightarrow> isdigit c"
  by (simp add: list_all_iff)

lemma dotted_filter:
  assumes "list_all isdigit ds"
  shows "filter (\<lambda>x. x \<noteq> CHR ''.'') (dotted ds) = ds"
proof -
  have comma: "CHR '','' \<notin> set ds"
    using assms isdigit_neq(1) by (auto simp: list_all_iff)
  have "filter (\<lambda>x. x \<noteq> CHR ''.'') (dotted ds)
      = map (\<lambda>x. if x = CHR '','' then CHR ''.'' else x)
          (filter (\<lambda>x. x \<noteq> CHR '','') (thousands ds))"
    unfolding dotted_def filter_map
  proof (rule arg_cong [where f = "map _"], rule filter_cong [OF refl])
    fix x assume "x \<in> set (thousands ds)"
    with thousands_chars have "x = CHR '','' \<or> x \<in> set ds" by blast
    then have "x = CHR '','' \<or> x \<noteq> CHR ''.''"
      using assms isdigit_neq(2) by (auto simp: list_all_iff)
    then show "((\<lambda>x. x \<noteq> CHR ''.'') \<circ> (\<lambda>x. if x = CHR '','' then CHR ''.'' else x)) x
        = (x \<noteq> CHR '','')"
      by auto
  qed
  also have "\<dots> = map (\<lambda>x. if x = CHR '','' then CHR ''.'' else x) ds"
    by (simp add: thousands_filter [OF comma])
  also have "\<dots> = ds"
    using comma by (intro map_idI) auto
  finally show ?thesis .
qed

lemma dotted_chars: "list_all isdigit ds \<Longrightarrow> c \<in> set (dotted ds) \<Longrightarrow> isdigit c \<or> c = CHR ''.''"
  using thousands_chars [of ds] by (auto simp: dotted_def list_all_iff)

lemma format_currency_cents:
  "format_currency (Finite (of_nat c / 100)) =
     ''R$ '' @ dotted (str_nat (c div 100)) @ CHR '','' # zfill 2 (str_nat (c mod 100))"
proof -
  let ?D = "str_nat (c div 100)" and ?dd = "zfill 2 (str_nat (c mod 100))"
  let ?g = "(\<lambda>x. if x = CHR ''X'' then CHR ''.'' else x) \<circ> ((\<lambda>x. if x = CHR ''.'' then CHR '','' else x)
              \<circ> (\<lambda>x. if x = CHR '','' then CHR ''X'' else x))"
  have fmt: "format_comma_2f (Finite (of_nat c / 100)) = thousands ?D @ CHR ''.'' # ?dd"
    by (simp add: round_half_even_of_nat minus_sign_def Let_def)
  have dd: "list_all isdigit ?dd"
    by (rule zfill2_props) simp
  have D: "list_all isdigit ?D"
    by (rule str_nat_digits)
  have 1: "map ?g (thousands ?D) = dotted ?D"
    unfolding dotted_def
  proof (rule map_cong [OF refl])
    fix x assume "x \<in> set (thousands ?D)"
    with thousands_chars have "x = CHR '','' \<or> x \<in> set ?D" by blast
    then have "x = CHR '','' \<or> isdigit x" using D by (auto simp: list_all_iff)
    then show "?g x = (if x = CHR '','' then CHR ''.'' else x)"
      using isdigit_neq by auto
  qed
  have 2: "map ?g ?dd = ?dd"
  proof (rule map_idI)
    fix x assume "x \<in> set ?dd"
    then have "isdigit x" using dd by (simp add: list_all_iff)
    then show "?g x = x" using isdigit_neq by auto
  qed
  have "format_currency (Finite (of_nat c / 100)) = map ?g (''R$ '' @ thousands ?D @ CHR ''.'' # ?dd)"
    by (simp only: format_currency_def fmt py_replace_single map_map)
  also have "\<dots> = ''R$ '' @ map ?g (thousands ?D) @ CHR '','' # map ?g ?dd"
    by simp
  finally show ?thesis
    by (simp only: 1 2)
qed

section \<open>The round trip\<close>

lemma parse_currency_brazilian:
  assumes D: "list_all isdigit ds" "ds \<noteq> []" and dd: "list_all isdigit fp" "fp \<noteq> []"
  shows "parse_currency (''R$ '' @ dotted ds @ CHR '','' # fp) =
           Finite (of_nat (nat_of_digits ds) + of_nat (nat_of_digits fp) / 10 ^ length fp)"
proof -
  define keep where "keep = (\<lambda>c. \<not> (c = CHR ''R'' \<or> c = CHR ''$'' \<or> isspace c))"
  let ?T = "dotted ds"
  let ?c = "?T @ CHR '','' # fp"
  have k: "\<not> keep CHR ''R''" "\<not> keep CHR ''$''" "\<not> keep CHR '' ''" "keep CHR '',''" "keep CHR ''.''"
    by (simp_all add: keep_def isspace_def)
  have kd: "keep x" if "isdigit x" for x
    using that isdigit_neq(4,5) isdigit_not_space by (auto simp: keep_def)
  have keepT: "filter keep ?T = ?T"
  proof (rule filter_True)
    show "\<forall>x\<in>set ?T. keep x"
      using dotted_chars [OF D(1)] kd k(5) by blast
  qed
  have keepfp: "filter keep fp = fp"
    using dd(1) kd by (intro filter_True) (auto simp: list_all_iff)
  have cleaned: "filter keep (''R$ '' @ ?T @ CHR '','' # fp) = ?c"
    by (simp add: keepT keepfp k)
  have nodot_fp: "filter (\<lambda>x. x \<noteq> CHR ''.'') fp = fp"
    using dd(1) isdigit_neq(2) by (intro filter_True) (auto simp: list_all_iff)
  have nocomma: "map (\<lambda>x. if x = CHR '','' then CHR ''.'' else x) xs = xs" if "list_all isdigit xs" for xs
    using that isdigit_neq(1) by (intro map_idI) (auto simp: list_all_iff)
  have both: "py_replace (py_replace ?c ''.'' []) '','' ''.'' = ds @ CHR ''.'' # fp"
    by (simp add: py_replace_delete py_replace_single dotted_filter [OF D(1)] nodot_fp
        nocomma [OF D(1)] nocomma [OF dd(1)])
  have only: "py_replace ?c '','' ''.'' = ds @ CHR ''.'' # fp" if "CHR ''.'' \<notin> set ?c"
  proof -
    from that have "filter (\<lambda>x. x \<noteq> CHR ''.'') ?T = ?T"
      by (intro filter_True) auto
    with dotted_filter [OF D(1)] have "?T = ds" by simp
    then show ?thesis
      by (simp add: py_replace_single nocomma [OF D(1)] nocomma [OF dd(1)])
  qed
  have "(if str_in '','' ?c \<and> str_in ''.'' ?c
         then py_replace (py_replace ?c ''.'' []) '','' ''.''
         else if str_in '','' ?c then py_replace ?c '','' ''.'' else ?c) = ds @ CHR ''.'' # fp"
    using both only by (simp only: str_in_single) auto
  then show ?thesis
    unfolding parse_currency_def keep_def [symmetric]
    by (simp only: cleaned Let_def py_float_decimal [OF D dd]) simp
qed

lemma currency_round_trip:
  "parse_currency (format_currency (Finite (of_nat c / 100))) = Finite (of_nat c / 100)"
proof -
  let ?D = "str_nat (c div 100)" and ?dd = "zfill 2 (str_nat (c mod 100))"
  have m: "c mod 100 < 100" by simp
  have dd: "list_all isdigit ?dd" "length ?dd = 2" "nat_of_digits ?dd = c mod 100"
    using zfill2_props [OF m] by simp_all
  then have ne: "?dd \<noteq> []" by auto
  have "parse_currency (format_currency (Finite (of_nat c / 100)))
      = Finite (of_nat (nat_of_digits ?D) + of_nat (nat_of_digits ?dd) / 10 ^ length ?dd)"
    unfolding format_currency_cents
    by (rule parse_currency_brazilian [OF str_nat_digits str_nat_nonempty dd(1) ne])
  also have "of_nat (nat_of_digits ?D) + of_nat (nat_of_digits ?dd) / 10 ^ length ?dd
      = (of_nat (c div 100) + of_nat (c mod 100) / 100 :: rat)"
    by (simp add: nat_of_digits_str_nat dd)
  also have "\<dots> = of_nat c / 100"
  proof -
    have "(of_nat c :: rat) = of_nat (100 * (c div 100) + c mod 100)" by simp
    also have "\<dots> = 100 * of_nat (c div 100) + of_nat (c mod 100)"
      by (simp only: of_nat_add of_nat_mult of_nat_numeral)
    finally show ?thesis by simp
  qed
  finally show ?thesis .
qed

section \<open>The currency parser\<close>






text \<open>
  C4. Formatting an amount of whole cents and parsing the result gives the amount back;
  1247.90 is written \<open>R$ 1.247,90\<close> and read back as 1247.90.
\<close>

theorem C4_currency_round_trip:
  "(\<forall>c :: nat. parse_currency (format_currency (Finite (of_nat c / 100))) = Finite (of_nat c / 100))
   \<and> format_currency (Finite (124790 / 100)) = ''R$ 1.247,90''
   \<and> parse_currency ''R$ 1.247,90'' = Finite (124790 / 100)"
proof -
  have s: "''R$ '' @ dotted (str_nat (124790 div 100)) @ CHR '','' # zfill 2 (str_nat (124790 mod 100))
      = ''R$ 1.247,90''"
    by (simp add: dotted_def thousands.simps str_nat.simps zfill_def digit_char_def)
  have "format_currency (Finite (of_nat 124790 / 100)) = ''R$ 1.247,90''"
    by (simp only: format_currency_cents s)
  then have f: "format_currency (Finite (124790 / 100)) = ''R$ 1.247,90''"
    by simp
  have "parse_currency (format_currency (Finite (of_nat 124790 / 100))) = Finite (of_nat 124790 / 100)"
    by (rule currency_round_trip)
  then have p: "parse_currency ''R$ 1.247,90'' = Finite (124790 / 100)"
    using f by simp
  from currency_round_trip f p show ?thesis by blast
qed

section \<open>Groups that a match always sets\<close>

lemma step_if_groups:
  "step_if p st k = Some x \<Longrightarrow> \<exists>st'. k st' = Some x \<and> (has_group n st \<longrightarrow> has_group n st')"
  by (auto simp: step_if_def has_group_def split: list.splits if_splits)

lemma rep_groups:
  assumes f: "\<And>st k x. f st k = Some x \<Longrightarrow>
                \<exists>st'. k st' = Some x \<and> (A \<or> has_group n st \<longrightarrow> has_group n st')"
  shows "rep f g lo m st k = Some x \<Longrightarrow>
           \<exists>st'. k st' = Some x \<and> ((A \<and> 0 < lo) \<or> has_group n st \<longrightarrow> has_group n st')"
proof (induction m arbitrary: lo st)
  case 0
  then show ?case by (auto split: if_splits)
next
  case (Suc m)
  show ?case
  proof (cases "0 < lo")
    case True
    with Suc.prems have "f st (\<lambda>st'. rep f g (lo - 1) m st' k) = Some x" by simp
    from f [OF this] obtain st1 where
      1: "rep f g (lo - 1) m st1 k = Some x" and 2: "A \<or> has_group n st \<longrightarrow> has_group n st1"
      by blast
    from Suc.IH [OF 1] obtain st2 where
      "k st2 = Some x" "(A \<and> 0 < lo - 1) \<or> has_group n st1 \<longrightarrow> has_group n st2"
      by blast
    with 2 show ?thesis by blast
  next
    case False
    then have lo: "lo = 0" by simp
    let ?more = "f st (\<lambda>st'. if length (rest st') < length (rest st)
                              then rep f g 0 m st' k else None)"
    from Suc.prems lo have "k st = Some x \<or> ?more = Some x"
      by (auto split: if_splits option.splits)
    then show ?thesis
    proof
      assume "k st = Some x"
      with lo show ?thesis by auto
    next
      assume "?more = Some x"
      from f [OF this] obtain st1 where
        1: "(if length (rest st1) < length (rest st) then rep f g 0 m st1 k else None) = Some x"
        and 2: "A \<or> has_group n st \<longrightarrow> has_group n st1"
        by blast
      from 1 have "rep f g 0 m st1 k = Some x"
        by (auto split: if_splits)
      from Suc.IH [OF this] obtain st2 where
        "k st2 = Some x" "has_group n st1 \<longrightarrow> has_group n st2"
        by auto
      with 2 lo show ?thesis by blast
    qed
  qed
qed

lemma has_group_set_group: "has_group n (set_group m t st) = (m = n \<or> has_group n st)"
proof -
  have "map_of (filter (\<lambda>g. fst g \<noteq> m) xs) n = (if n = m then None else map_of xs n)" for xs :: "(nat \<times> string) list"
    by (induction xs) auto
  then show ?thesis
    by (auto simp: has_group_def set_group_def)
qed

lemma rmatch_groups:
  "rmatch r ic st k = Some x \<Longrightarrow>
     \<exists>st'. k st' = Some x \<and> (always_sets n r \<or> has_group n st \<longrightarrow> has_group n st')"
proof (induction r arbitrary: st k x)
  case (RChar a)
  then show ?case using step_if_groups by fastforce
next
  case (RSet items)
  then show ?case using step_if_groups by fastforce
next
  case RAny
  then show ?case using step_if_groups by fastforce
next
  case (RSeq r1 r2)
  from RSeq.prems have "rmatch r1 ic st (\<lambda>st'. rmatch r2 ic st' k) = Some x" by simp
  from RSeq.IH(1) [OF this] obtain st1 where
    1: "rmatch r2 ic st1 k = Some x" and 2: "always_sets n r1 \<or> has_group n st \<longrightarrow> has_group n st1"
    by blast
  from RSeq.IH(2) [OF 1] obtain st2 where
    "k st2 = Some x" "always_sets n r2 \<or> has_group n st1 \<longrightarrow> has_group n st2"
    by blast
  with 2 show ?case by (intro exI [of _ st2]) auto
next
  case (RAlt r1 r2)
  from RAlt.prems have "rmatch r1 ic st k = Some x \<or> rmatch r2 ic st k = Some x"
    by (auto split: option.splits)
  then show ?case
  proof
    assume "rmatch r1 ic st k = Some x"
    from RAlt.IH(1) [OF this] show ?thesis by auto
  next
    assume "rmatch r2 ic st k = Some x"
    from RAlt.IH(2) [OF this] show ?thesis by auto
  qed
next
  case (RRep r lo hi greedy)
  have "rep (rmatch r ic) greedy lo m st k = Some x \<Longrightarrow>
          \<exists>st'. k st' = Some x
            \<and> ((always_sets n r \<and> 0 < lo) \<or> has_group n st \<longrightarrow> has_group n st')" for m
    by (rule rep_groups [where f = "rmatch r ic"]) (rule RRep.IH)
  with RRep.prems show ?case by auto
next
  case (RGroup m r)
  from RGroup.prems
  have "rmatch r ic st (\<lambda>st'. k (set_group m (consumed st st') st')) = Some x" by simp
  from RGroup.IH [OF this] obtain st1 where
    "k (set_group m (consumed st st1) st1) = Some x"
    "always_sets n r \<or> has_group n st \<longrightarrow> has_group n st1" by blast
  then show ?case
    by (intro exI [of _ "set_group m (consumed st st1) st1"]) (auto simp: has_group_set_group)
next
  case RBol
  then show ?case by (auto split: if_splits)
next
  case REol
  then show ?case by (auto split: if_splits)
next
  case REps
  then show ?case by auto
qed

lemma match_at_group:
  assumes "match_at r ic bos s = Some m" "always_sets n r" "0 < n"
  shows "\<exists>t. group m n = Inr t"
proof -
  from assms(1) have "rmatch r ic \<lparr>at_start = bos, rest = s, caps = []\<rparr>
       (\<lambda>st'. Some \<lparr>group0 = take (length s - length (rest st')) s, groups = caps st',
                     after = rest st'\<rparr>) = Some m"
    by (simp add: match_at_def)
  from rmatch_groups [OF this, of n] assms(2) obtain st' where
    "m = \<lparr>group0 = take (length s - length (rest st')) s, groups = caps st', after = rest st'\<rparr>"
    "has_group n st'"
    by auto
  with assms(3) show ?thesis
    by (auto simp: group_def has_group_def)
qed

lemma search_from_group:
  "search_from r ic bos s = Some m \<Longrightarrow> always_sets n r \<Longrightarrow> 0 < n \<Longrightarrow> \<exists>t. group m n = Inr t"
  by (induction s arbitrary: bos) (auto split: option.splits dest: match_at_group)

lemma re_search_group:
  "re_search r ic s = Some m \<Longrightarrow> always_sets n r \<Longrightarrow> 0 < n \<Longrightarrow> \<exists>t. group m n = Inr t"
  unfolding re_search_def by (rule search_from_group)

section \<open>The amounts of the Nubank extraction\<close>

lemma nubank_valor_find:
  "\<forall>p \<in> set ps. always_sets 1 p \<Longrightarrow>
     nubank_valor ps text = Inr (find in_range (List.map_filter (\<lambda>p. nubank_candidate p text) ps))"
proof (induction ps)
  case Nil
  then show ?case by (simp add: map_filter_simps)
next
  case (Cons p ps)
  then have IH: "nubank_valor ps text = Inr (find in_range (List.map_filter (\<lambda>p. nubank_candidate p text) ps))"
    and p: "always_sets 1 p" by auto
  show ?case
  proof (cases "re_search p False text")
    case None
    then show ?thesis by (simp add: IH nubank_candidate_def map_filter_simps)
  next
    case (Some m)
    from re_search_group [OF Some p] obtain g where g: "group m 1 = Inr g" by auto
    then have g': "group m (Suc 0) = Inr g" by simp
    show ?thesis
    proof (cases "py_float (py_replace g '','' ''.'')")
      case (Inl e)
      then have "nubank_candidate p text = None"
        by (simp add: nubank_candidate_def Some g g')
      with Inl show ?thesis
        by (simp add: Some g' IH map_filter_simps)
    next
      case (Inr v)
      then have "nubank_candidate p text = Some v"
        by (simp add: nubank_candidate_def Some g g')
      moreover have "in_range v = (fle (Finite (1 / 100)) v \<and> fle v (Finite 10000))"
        by (simp add: in_range_def)
      ultimately show ?thesis
        using Inr by (simp add: Some g' IH map_filter_simps)
    qed
  qed
qed

lemma first_group1_raw_total:
  "\<forall>p \<in> set ps. always_sets 1 p \<Longrightarrow> \<exists>r. first_group1_raw ps text = Inr r"
proof (induction ps)
  case Nil
  then show ?case by simp
next
  case (Cons p ps)
  show ?case
  proof (cases "re_search p False text")
    case None
    with Cons show ?thesis by simp
  next
    case (Some m)
    from re_search_group [OF Some, of 1] Cons.prems obtain g where "group m 1 = Inr g" by auto
    then have "group m (Suc 0) = Inr g" by simp
    with Some show ?thesis by simp
  qed
qed

lemma nubank_origem_total:
  "\<forall>p \<in> set ps. always_sets 1 p \<Longrightarrow> \<exists>r. nubank_origem ps text = Inr r"
proof (induction ps)
  case Nil
  then show ?case by simp
next
  case (Cons p ps)
  show ?case
  proof (cases "re_search p True text")
    case None
    with Cons show ?thesis by simp
  next
    case (Some m)
    from re_search_group [OF Some, of 1] Cons.prems obtain g where "group m 1 = Inr g" by auto
    then have "group m (Suc 0) = Inr g" by simp
    with Some Cons show ?thesis by simp
  qed
qed

lemma always_sets_rseq: "always_sets n (rseq rs) = list_ex (always_sets n) rs"
  by (induction rs) (simp_all add: rseq_def)

lemma nubank_patterns_group1:
  "\<forall>p \<in> set nubank_valor_patterns. always_sets 1 p"
  "\<forall>p \<in> set nubank_hora_patterns. always_sets 1 p"
  "\<forall>p \<in> set nubank_origem_patterns. always_sets 1 p"
  by (simp_all add: nubank_valor_patterns_def nubank_hora_patterns_def nubank_origem_patterns_def
      always_sets_rseq amount_group_def reais_amount_def name_between_def)

lemma floats_set_str: "floats (set_str k v d) k' = (if k' = k then None else floats d k')"
  by (simp add: set_str_def)

lemma floats_set_str_opt:
  "floats (set_str_opt k v d) k' = (if k' = k \<and> v \<noteq> None then None else floats d k')"
  by (cases v) (simp_all add: set_str_opt_def floats_set_str)

lemma floats_set_float: "floats (set_float k v d) k' = (if k' = k then Some v else floats d k')"
  by (simp add: set_float_def)

lemma extract_nubank_data_valor:
  "\<exists>d. extract_nubank_data text = Inr d
       \<and> floats d ''valor_numerico'' = find in_range (nubank_candidates (correct_common_ocr_errors text))
       \<and> floats d ''valor_total'' = floats d ''valor_numerico''"
proof -
  let ?c = "correct_common_ocr_errors text"
  have v: "nubank_valor nubank_valor_patterns ?c = Inr (find in_range (nubank_candidates ?c))"
    unfolding nubank_candidates_def by (rule nubank_valor_find) (rule nubank_patterns_group1)
  obtain h where h: "first_group1_raw nubank_hora_patterns ?c = Inr h"
    using first_group1_raw_total [OF nubank_patterns_group1(2)] by blast
  obtain n where n: "nubank_origem nubank_origem_patterns ?c = Inr n"
    using nubank_origem_total [OF nubank_patterns_group1(3)] by blast
  show ?thesis
    by (cases "find in_range (nubank_candidates ?c)")
      (simp_all add: extract_nubank_data_def Let_def v h n floats_set_str floats_set_str_opt
        floats_set_float empty_dict_def)
qed

lemma find_in_range: "find in_range xs = Some v \<Longrightarrow> in_range v"
  by (induction xs) (auto split: if_splits)

lemma py_float_20000: "py_float ''20000.00'' = Inr (Finite 20000)"
proof -
  have "py_float (''20000'' @ CHR ''.'' # ''00'') =
      Inr (Finite (of_nat (nat_of_digits ''20000'') + of_nat (nat_of_digits ''00'') / 10 ^ length ''00''))"
    by (rule py_float_decimal) (simp_all add: isdigit_def)
  then show ?thesis by (simp add: nat_of_digits_def digit_val_def)
qed

lemma py_float_50: "py_float ''50.00'' = Inr (Finite 50)"
proof -
  have "py_float (''50'' @ CHR ''.'' # ''00'') =
      Inr (Finite (of_nat (nat_of_digits ''50'') + of_nat (nat_of_digits ''00'') / 10 ^ length ''00''))"
    by (rule py_float_decimal) (simp_all add: isdigit_def)
  then show ?thesis by (simp add: nat_of_digits_def digit_val_def)
qed

lemma nubank_amount_strings:
  "map (\<lambda>pattern. map_option (\<lambda>m. map_sum id (\<lambda>g. py_replace g '','' ''.'') (group m 1))
          (re_search pattern False (correct_common_ocr_errors ''Valor R$ 20000,00 ou 50,00 reais'')))
     nubank_valor_patterns
   = [Some (Inr ''20000.00''), Some (Inr ''20000.00''), Some (Inr ''50.00'')]"
  "map (\<lambda>pattern. map_option (\<lambda>m. map_sum id (\<lambda>g. py_replace g '','' ''.'') (group m 1))
          (re_search pattern False (correct_common_ocr_errors ''Valor R$ 20000,00'')))
     nubank_valor_patterns
   = [Some (Inr ''20000.00''), Some (Inr ''20000.00''), Some (Inr ''20000.00'')]"
  by code_simp+

lemma nubank_candidates_strings:
  "List.map_filter (\<lambda>pattern. nubank_candidate pattern text) ps =
     List.map_filter
       (\<lambda>x. case x of None \<Rightarrow> None | Some (Inl e) \<Rightarrow> None
                | Some (Inr s) \<Rightarrow> (case py_float s of Inl e \<Rightarrow> None | Inr v \<Rightarrow> Some v))
       (map (\<lambda>pattern. map_option (\<lambda>m. map_sum id (\<lambda>g. py_replace g '','' ''.'') (group m 1))
               (re_search pattern False text)) ps)"
  by (induction ps)
    (simp_all add: map_filter_simps nubank_candidate_def split: option.splits sum.splits)

lemma nubank_candidates_examples:
  "nubank_candidates (correct_common_ocr_errors ''Valor R$ 20000,00 ou 50,00 reais'')
     = [Finite 20000, Finite 20000, Finite 50]"
  "nubank_candidates (correct_common_ocr_errors ''Valor R$ 20000,00'')
     = [Finite 20000, Finite 20000, Finite 20000]"
  unfolding nubank_candidates_def nubank_candidates_strings nubank_amount_strings
  by (simp_all add: map_filter_simps py_float_20000 py_float_50)

lemma find_in_range_examples:
  "find in_range [Finite 20000, Finite 20000, Finite 50] = Some (Finite 50)"
  "find in_range [Finite 20000, Finite 20000, Finite 20000] = None"
  by code_simp+

text \<open>
  Claim C10. \<open>extract_nubank_data\<close> returns a dictionary for every text. Its
  \<open>valor_numerico\<close> is the first candidate amount, in the order of the three patterns, that
  lies between 0.01 and 10000, and \<open>valor_total\<close> is the same: a value that is set lies in
  that range, a candidate outside of it is passed over, and when no candidate lies in the
  range both keys are absent.
\<close>

theorem C10_nubank_valor_in_range:
  "\<exists>d. extract_nubank_data text = Inr d
     \<and> floats d ''valor_numerico'' = find in_range (nubank_candidates (correct_common_ocr_errors text))
     \<and> floats d ''valor_total'' = floats d ''valor_numerico''
     \<and> (\<forall>v. floats d ''valor_numerico'' = Some v
            \<longrightarrow> fle (Finite (1 / 100)) v \<and> fle v (Finite 10000))"
proof -
  from extract_nubank_data_valor [of "text"] obtain d where
    d: "extract_nubank_data text = Inr d"
      "floats d ''valor_numerico'' = find in_range (nubank_candidates (correct_common_ocr_errors text))"
      "floats d ''valor_total'' = floats d ''valor_numerico''"
    by blast
  have "fle (Finite (1 / 100)) v \<and> fle v (Finite 10000)" if "floats d ''valor_numerico'' = Some v" for v
    using find_in_range [of "nubank_candidates (correct_common_ocr_errors text)" v] that d(2)
    by (simp add: in_range_def)
  with d show ?thesis by blast
qed

theorem C10_nubank_valor_witness:
  "(\<exists>d. extract_nubank_data ''Valor R$ 20000,00 ou 50,00 reais'' = Inr d
      \<and> floats d ''valor_numerico'' = Some (Finite 50)
      \<and> floats d ''valor_total'' = Some (Finite 50)
      \<and> fle (Finite (1 / 100)) (Finite 50) \<and> fle (Finite 50) (Finite 10000))
   \<and> (\<exists>d. extract_nubank_data ''Valor R$ 20000,00'' = Inr d
      \<and> floats d ''valor_numerico'' = None
      \<and> floats d ''valor_total'' = None)"
  using C10_nubank_valor_in_range [of "''Valor R$ 20000,00 ou 50,00 reais''"]
    C10_nubank_valor_in_range [of "''Valor R$ 20000,00''"]
  unfolding nubank_candidates_examples find_in_range_examples
  by auto

end
